theory Spec2Isabelle
  imports Complex_Main
begin

section \<open>Values of the Python runtime\<close>

text \<open>
  Exceptions the modelled code can raise are values; a fallible computation returns
  \<open>error + 'a\<close> with \<open>Inl\<close> for the exception. All four are subclasses of
  Python's \<open>Exception\<close>.
\<close>

datatype error = ValueError | ZeroDivisionError | OverflowError | KeyError

text \<open>
  A Python \<open>str\<close> is a sequence of Unicode code points. Stage identifiers and dictionary
  keys are ASCII literals and are kept as \<open>string\<close>; user-visible text holds CJK
  characters and emoji and is kept as the list of its code points.
\<close>

type_synonym ustr = "nat list"

text \<open>A calendar date is its proleptic Gregorian ordinal (\<open>date.toordinal()\<close>);
  the difference of two dates in days is the difference of the ordinals.\<close>

type_synonym date = int

subsection \<open>Binary64 floating point\<close>

text \<open>
  A Python \<open>float\<close> is an IEEE 754 binary64 value. A finite value is represented by the
  rational number it denotes (the two zeros are not distinguished: the program only
  compares floats and does arithmetic on them). Every arithmetic operation computes
  the exact rational result and rounds it to the nearest binary64 value, ties to even.
\<close>

datatype float64 = Finite rat | PInf | NInf | NaN

definition round_half_even :: "rat \<Rightarrow> int" where
  "round_half_even x =
     (let n = \<lfloor>x\<rfloor>; r = x - of_int n
      in if r < 1 / 2 then n
         else if 1 / 2 < r then n + 1
         else if even n then n else n + 1)"

text \<open>\<open>ilog2 x\<close> is the binary exponent of a positive rational:
  \<open>2 powi ilog2 x \<le> x < 2 powi (ilog2 x + 1)\<close>.\<close>

function ilog2_up :: "rat \<Rightarrow> int" where
  "ilog2_up x = (if x < 2 then 0 else ilog2_up (x / 2) + 1)"
  by pat_completeness auto
termination
proof (relation "measure (\<lambda>x. nat \<lfloor>x\<rfloor>)")
  show "wf (measure (\<lambda>x::rat. nat \<lfloor>x\<rfloor>))" by simp
next
  fix x :: rat
  assume "\<not> x < 2"
  then have n: "2 \<le> \<lfloor>x\<rfloor>" by linarith
  have "x < of_int \<lfloor>x\<rfloor> + 1" by linarith
  moreover have "(2::rat) \<le> of_int \<lfloor>x\<rfloor>" using n by linarith
  ultimately have "x / 2 < of_int \<lfloor>x\<rfloor>" by linarith
  then have "\<lfloor>x / 2\<rfloor> < \<lfloor>x\<rfloor>" by (simp only: floor_less_iff)
  then show "(x / 2, x) \<in> measure (\<lambda>x. nat \<lfloor>x\<rfloor>)" using n by simp
qed

function ilog2_down :: "rat \<Rightarrow> int" where
  "ilog2_down x = (if x \<le> 0 \<or> 1 \<le> x then 0 else ilog2_down (2 * x) - 1)"
  by pat_completeness auto
termination
proof (relation "measure (\<lambda>x. nat \<lfloor>1 / x\<rfloor>)")
  show "wf (measure (\<lambda>x::rat. nat \<lfloor>1 / x\<rfloor>))" by simp
next
  fix x :: rat
  assume "\<not> (x \<le> 0 \<or> 1 \<le> x)"
  then have x: "0 < x" "x < 1" by auto
  define y where "y = 1 / x"
  have "1 < y" using x by (simp add: y_def)
  then have n: "1 \<le> \<lfloor>y\<rfloor>" by linarith
  have "y < of_int \<lfloor>y\<rfloor> + 1" by linarith
  moreover have "(1::rat) \<le> of_int \<lfloor>y\<rfloor>" using n by linarith
  ultimately have "y / 2 < of_int \<lfloor>y\<rfloor>" by linarith
  then have lt: "\<lfloor>y / 2\<rfloor> < \<lfloor>y\<rfloor>" by (simp only: floor_less_iff)
  have eq: "1 / (2 * x) = y / 2" by (simp add: y_def)
  have "nat \<lfloor>y / 2\<rfloor> < nat \<lfloor>y\<rfloor>" using lt n by linarith
  then have "nat \<lfloor>1 / (2 * x)\<rfloor> < nat \<lfloor>1 / x\<rfloor>"
    unfolding eq unfolding y_def .
  then show "(2 * x, x) \<in> measure (\<lambda>x. nat \<lfloor>1 / x\<rfloor>)"
    by (simp only: in_measure)
qed

declare ilog2_up.simps [simp del] ilog2_down.simps [simp del]

definition ilog2 :: "rat \<Rightarrow> int" where
  "ilog2 x = (if 1 \<le> x then ilog2_up x else ilog2_down x)"

text \<open>
  Rounding to binary64: 53 significant bits, exponents from \<open>-1022\<close> (below which the
  spacing stays \<open>2 powi (-1074)\<close>, the subnormal range) and overflow to an infinity from
  \<open>2 ^ 1024\<close> on.
\<close>

definition rnd64 :: "rat \<Rightarrow> float64" where
  "rnd64 x =
     (if x = 0 then Finite 0
      else let e = max (ilog2 \<bar>x\<bar>) (- 1022);
               u = 2 powi (e - 52);
               r = of_int (round_half_even (x / u)) * u
           in if 2 ^ 1024 \<le> \<bar>r\<bar> then (if 0 < x then PInf else NInf) else Finite r)"

text \<open>
  A decimal literal of the source is the binary64 value nearest to it. \<open>float_lit m k\<close> is
  the literal with the digits \<open>m\<close>, the last \<open>k\<close> of them after the decimal point:
  \<open>float_lit 8 1\<close> is \<open>0.8\<close> and \<open>float_lit 10 1\<close> is \<open>1.0\<close>.
\<close>

definition float_lit :: "int \<Rightarrow> nat \<Rightarrow> float64" where
  "float_lit m k = rnd64 (of_int m / 10 ^ k)"

fun fmul :: "float64 \<Rightarrow> float64 \<Rightarrow> float64" where
  "fmul (Finite a) (Finite b) = rnd64 (a * b)"
| "fmul NaN _ = NaN"
| "fmul _ NaN = NaN"
| "fmul (Finite a) PInf = (if a = 0 then NaN else if 0 < a then PInf else NInf)"
| "fmul (Finite a) NInf = (if a = 0 then NaN else if 0 < a then NInf else PInf)"
| "fmul PInf (Finite b) = (if b = 0 then NaN else if 0 < b then PInf else NInf)"
| "fmul NInf (Finite b) = (if b = 0 then NaN else if 0 < b then NInf else PInf)"
| "fmul PInf PInf = PInf"
| "fmul NInf NInf = PInf"
| "fmul PInf NInf = NInf"
| "fmul NInf PInf = NInf"

fun fadd :: "float64 \<Rightarrow> float64 \<Rightarrow> float64" where
  "fadd (Finite a) (Finite b) = rnd64 (a + b)"
| "fadd NaN _ = NaN"
| "fadd _ NaN = NaN"
| "fadd PInf NInf = NaN"
| "fadd NInf PInf = NaN"
| "fadd PInf _ = PInf"
| "fadd NInf _ = NInf"
| "fadd _ PInf = PInf"
| "fadd _ NInf = NInf"

fun fsub :: "float64 \<Rightarrow> float64 \<Rightarrow> float64" where
  "fsub (Finite a) (Finite b) = rnd64 (a - b)"
| "fsub NaN _ = NaN"
| "fsub _ NaN = NaN"
| "fsub PInf PInf = NaN"
| "fsub NInf NInf = NaN"
| "fsub PInf _ = PInf"
| "fsub NInf _ = NInf"
| "fsub _ PInf = NInf"
| "fsub _ NInf = PInf"

text \<open>\<open>a < b\<close> and \<open>a >= b\<close> on floats; every comparison with a NaN is false.\<close>

fun flt :: "float64 \<Rightarrow> float64 \<Rightarrow> bool" where
  "flt (Finite a) (Finite b) = (a < b)"
| "flt NaN _ = False"
| "flt _ NaN = False"
| "flt _ NInf = False"
| "flt PInf _ = False"
| "flt NInf _ = True"
| "flt _ PInf = True"

definition fge :: "float64 \<Rightarrow> float64 \<Rightarrow> bool" where
  "fge a b = (a \<noteq> NaN \<and> b \<noteq> NaN \<and> (if flt a b then False else True))"

text \<open>The builtin \<open>min(a, b)\<close> keeps its first argument unless the second is smaller.\<close>

definition py_min :: "float64 \<Rightarrow> float64 \<Rightarrow> float64" where
  "py_min a b = (if flt b a then b else a)"

text \<open>
  \<open>a / b\<close> on two Python integers: \<open>ZeroDivisionError\<close> for a zero divisor, otherwise the
  correctly rounded quotient, and \<open>OverflowError\<close> when that is too large for a float.
\<close>

definition int_truediv :: "int \<Rightarrow> int \<Rightarrow> error + float64" where
  "int_truediv a b =
     (if b = 0 then Inl ZeroDivisionError
      else case rnd64 (of_int a / of_int b) of
             Finite r \<Rightarrow> Inr (Finite r)
           | _ \<Rightarrow> Inl OverflowError)"

text \<open>\<open>a % b\<close> on two Python integers: the remainder has the sign of the divisor,
  as \<open>mod\<close> on \<open>int\<close> has.\<close>

definition py_mod :: "int \<Rightarrow> int \<Rightarrow> error + int" where
  "py_mod a b = (if b = 0 then Inl ZeroDivisionError else Inr (a mod b))"

text \<open>
  \<open>round(x, 2)\<close> on a float: the exact value of \<open>x\<close> is rounded to two decimal places
  (ties to even) and the decimal result is converted back to the nearest float;
  infinities and NaN are returned as they are.
\<close>

definition round2 :: "float64 \<Rightarrow> error + float64" where
  "round2 x =
     (case x of
        Finite a \<Rightarrow>
          (case rnd64 (of_int (round_half_even (a * 100)) / 100) of
             Finite r \<Rightarrow> Inr (Finite r)
           | _ \<Rightarrow> Inl OverflowError)
      | _ \<Rightarrow> Inr x)"

text \<open>\<open>str(n)\<close> on a Python integer: its decimal digits, with a minus sign when negative.\<close>

fun str_nat :: "nat \<Rightarrow> ustr" where
  "str_nat n = (if n < 10 then [0x30 + n] else str_nat (n div 10) @ [0x30 + n mod 10])"

definition str_int :: "int \<Rightarrow> ustr" where
  "str_int i = (if i < 0 then 0x2D # str_nat (nat (- i)) else str_nat (nat i))"

text \<open>\<open>s.strip()\<close> removes leading and trailing whitespace, the code points for which
  \<open>str.isspace\<close> holds.\<close>

definition py_isspace :: "nat \<Rightarrow> bool" where
  "py_isspace c =
     (c \<in> set [0x9, 0xA, 0xB, 0xC, 0xD, 0x1C, 0x1D, 0x1E, 0x1F, 0x20, 0x85, 0xA0, 0x1680,
               0x2000, 0x2001, 0x2002, 0x2003, 0x2004, 0x2005, 0x2006, 0x2007, 0x2008,
               0x2009, 0x200A, 0x2028, 0x2029, 0x202F, 0x205F, 0x3000])"

definition py_strip :: "ustr \<Rightarrow> ustr" where
  "py_strip s = rev (dropWhile py_isspace (rev (dropWhile py_isspace s)))"

text \<open>\<open>sep.join(xs)\<close>.\<close>

fun py_join :: "ustr \<Rightarrow> ustr list \<Rightarrow> ustr" where
  "py_join sep [] = []"
| "py_join sep [x] = x"
| "py_join sep (x # y # ys) = x @ sep @ py_join sep (y # ys)"

section \<open>The host\<close>

text \<open>
  What the program reads from outside itself. \<open>now_date_1\<close> is the value of
  \<open>datetime.now().date()\<close> at the start of a calculation and \<open>now_date_2\<close> its value when
  the clock is read again for the fallback date. \<open>strptime_date s\<close> is
  \<open>datetime.strptime(s, "%Y-%m-%d").date()\<close>, with \<open>None\<close> where it raises
  \<open>ValueError\<close>. \<open>float_repr\<close> is the text an f-string puts for a float and \<open>exc_str\<close>
  the text it puts for an exception. Calls to the logger return nothing the program
  reads and are left out.
\<close>

record host =
  now_date_1 :: date
  now_date_2 :: date
  strptime_date :: "ustr \<Rightarrow> date option"
  float_repr :: "float64 \<Rightarrow> ustr"
  exc_str :: "error \<Rightarrow> ustr"

text \<open>
  The plugin configuration holds, for each key, the configured value if there is one;
  \<open>get_config\<close> returns it, or the default given at the call. Values have the types the
  configuration schema declares for their keys.
\<close>

record config =
  plugin_enabled :: "bool option"
  cycle_last_period_date :: "ustr option"
  cycle_cycle_length :: "int option"

definition get_config :: "'a option \<Rightarrow> 'a \<Rightarrow> 'a" where
  "get_config v dflt = (case v of Some x \<Rightarrow> x | None \<Rightarrow> dflt)"

section \<open>PeriodStateManager\<close>

text \<open>
  The state dictionary built by \<open>calculate_current_state\<close> always has the same seven keys;
  it is a record with one field for each key (\<open>st_stage\<close> for \<open>"stage"\<close>, and so on).
  Having seven entries, it is never an empty (false) dictionary.
\<close>

record cycle_state =
  st_stage :: string
  st_current_day :: int
  st_cycle_length :: int
  st_physical_impact :: float64
  st_psychological_impact :: float64
  st_stage_name_cn :: ustr
  st_description :: ustr

record PeriodStateManager =
  last_calculated_date :: "date option"
  current_state :: "cycle_state option"

definition init_manager :: PeriodStateManager where
  "init_manager = \<lparr>last_calculated_date = None, current_state = None\<rparr>"

definition base_impacts :: "(string \<times> float64 \<times> float64) list" where
  "base_impacts =
     [(''menstrual'', (float_lit 8 1, float_lit 7 1)),
      (''follicular'', (float_lit 1 1, float_lit 1 1)),
      (''ovulation'', (float_lit 4 1, float_lit 2 1)),
      (''luteal'', (float_lit 6 1, float_lit 5 1))]"

definition calculate_impacts :: "string \<Rightarrow> int \<Rightarrow> int \<Rightarrow> error + float64 \<times> float64" where
  "calculate_impacts stage current_day cycle_length =
     (case map_of base_impacts stage of
        None \<Rightarrow> Inl KeyError
      | Some (physical_base, psychological_base) \<Rightarrow>
          (case
             (if stage = ''menstrual'' then
                (let day_in_stage = current_day
                 in case int_truediv (day_in_stage - 1) 5 of
                      Inl e \<Rightarrow> Inl e
                    | Inr q \<Rightarrow>
                        (let intensity = fsub (float_lit 10 1) (fmul q (float_lit 3 1))
                         in Inr (fmul physical_base intensity,
                                 fmul psychological_base intensity)))
              else if stage = ''luteal'' then
                (let day_in_stage = current_day - 14;
                     total_days = cycle_length - 14
                 in case int_truediv day_in_stage total_days of
                      Inl e \<Rightarrow> Inl e
                    | Inr q \<Rightarrow>
                        (let intensity = fadd (float_lit 7 1) (fmul q (float_lit 3 1))
                         in Inr (py_min (fmul physical_base intensity) (float_lit 8 1),
                                 py_min (fmul psychological_base intensity) (float_lit 7 1))))
              else Inr (physical_base, psychological_base))
           of
             Inl e \<Rightarrow> Inl e
           | Inr (physical_impact, psychological_impact) \<Rightarrow>
               (case round2 physical_impact of
                  Inl e \<Rightarrow> Inl e
                | Inr p \<Rightarrow>
                    (case round2 psychological_impact of
                       Inl e \<Rightarrow> Inl e
                     | Inr q \<Rightarrow> Inr (p, q)))))"

definition stage_names :: "(string \<times> ustr) list" where
  "stage_names =
     [(''menstrual'', [0x6708, 0x7ECF, 0x671F]),
      (''follicular'', [0x5375, 0x6CE1, 0x671F]),
      (''ovulation'', [0x6392, 0x5375, 0x671F]),
      (''luteal'', [0x9EC4, 0x4F53, 0x671F])]"

definition get_stage_name_cn :: "string \<Rightarrow> ustr" where
  "get_stage_name_cn stage =
     (case map_of stage_names stage of
        Some n \<Rightarrow> n
      | None \<Rightarrow> [0x672A, 0x77E5, 0x9636, 0x6BB5])"

definition stage_descriptions :: "(string \<times> ustr) list" where
  "stage_descriptions =
     [(''menstrual'',
       [0x8EAB, 0x4F53, 0x4E0D, 0x9002, 0xFF0C, 0x60C5, 0x7EEA, 0x654F, 0x611F, 0xFF0C,
        0x9700, 0x8981, 0x66F4, 0x591A, 0x4F11, 0x606F, 0x548C, 0x7406, 0x89E3]),
      (''follicular'',
       [0x7CBE, 0x529B, 0x5145, 0x6C9B, 0xFF0C, 0x60C5, 0x7EEA, 0x79EF, 0x6781, 0xFF0C,
        0x601D, 0x7EF4, 0x6E05, 0x6670]),
      (''ovulation'',
       [0x72B6, 0x6001, 0x826F, 0x597D, 0xFF0C, 0x5916, 0x5411, 0x6D3B, 0x6CFC, 0xFF0C,
        0x5BCC, 0x6709, 0x9B45, 0x529B]),
      (''luteal'',
       [0x8EAB, 0x4F53, 0x75B2, 0x60EB, 0xFF0C, 0x60C5, 0x7EEA, 0x6CE2, 0x52A8, 0xFF0C,
        0x9700, 0x8981, 0x66F4, 0x591A, 0x8010, 0x5FC3])]"

definition get_stage_description :: "string \<Rightarrow> ustr" where
  "get_stage_description stage =
     (case map_of stage_descriptions stage of Some d \<Rightarrow> d | None \<Rightarrow> [])"

text \<open>
  \<open>calculate_current_state\<close> returns the state together with the manager as the call
  leaves it. An exception leaves the manager as it was: both attributes are assigned
  after the last operation that can raise.
\<close>

definition calculate_current_state ::
  "host \<Rightarrow> PeriodStateManager \<Rightarrow> ustr \<Rightarrow> int \<Rightarrow> error + cycle_state \<times> PeriodStateManager"
where
  "calculate_current_state h self last_period_date cycle_length =
     (let today = now_date_1 h
      in if last_calculated_date self = Some today \<and> current_state self \<noteq> None
         then Inr (the (current_state self), self)
         else
             (let last_date =
                    (case strptime_date h last_period_date of
                       Some d \<Rightarrow> d
                     | None \<Rightarrow> now_date_2 h - 14);
                  days_passed = today - last_date
              in case py_mod days_passed cycle_length of
                   Inl e \<Rightarrow> Inl e
                 | Inr r \<Rightarrow>
                     (let current_day = r + 1;
                          stage =
                            (if current_day \<le> 5 then ''menstrual''
                             else if current_day \<le> 13 then ''follicular''
                             else if current_day = 14 then ''ovulation''
                             else ''luteal'')
                      in case calculate_impacts stage current_day cycle_length of
                           Inl e \<Rightarrow> Inl e
                         | Inr (physical_impact, psychological_impact) \<Rightarrow>
                             (let state =
                                    \<lparr>st_stage = stage,
                                     st_current_day = current_day,
                                     st_cycle_length = cycle_length,
                                     st_physical_impact = physical_impact,
                                     st_psychological_impact = psychological_impact,
                                     st_stage_name_cn = get_stage_name_cn stage,
                                     st_description = get_stage_description stage\<rparr>
                              in Inr (state,
                                      self\<lparr>current_state := Some state,
                                           last_calculated_date := Some today\<rparr>)))))"

section \<open>PeriodStatePrompt\<close>

definition get_behavior_guidance :: "float64 \<Rightarrow> float64 \<Rightarrow> ustr" where
  "get_behavior_guidance physical psychological =
     (let guidance = [];
          guidance =
            guidance @
            [if fge physical (float_lit 7 1) then
               [0x2022, 0x20, 0x4F60, 0x53EF, 0x80FD, 0x4F1A, 0x611F, 0x5230, 0x8EAB, 0x4F53,
                0x4E0D, 0x9002, 0xFF0C, 0x56DE, 0x590D, 0x65F6, 0x53EF, 0x4EE5, 0x8868, 0x73B0,
                0x5F97, 0x9700, 0x8981, 0x66F4, 0x591A, 0x4F11, 0x606F, 0x548C, 0x7406, 0x89E3]
             else if fge physical (float_lit 4 1) then
               [0x2022, 0x20, 0x4F60, 0x53EF, 0x80FD, 0x4F1A, 0x611F, 0x5230, 0x4E9B, 0x8BB8,
                0x75B2, 0x60EB, 0xFF0C, 0x56DE, 0x590D, 0x65F6, 0x53EF, 0x4EE5, 0x9002, 0x5F53,
                0x653E, 0x6162, 0x8282, 0x594F]
             else
               [0x2022, 0x20, 0x4F60, 0x611F, 0x89C9, 0x8EAB, 0x4F53, 0x72B6, 0x6001, 0x826F,
                0x597D, 0xFF0C, 0x53EF, 0x4EE5, 0x79EF, 0x6781, 0x70ED, 0x60C5, 0x5730, 0x4E92,
                0x52A8]];
          guidance =
            guidance @
            [if fge psychological (float_lit 6 1) then
               [0x2022, 0x20, 0x4F60, 0x7684, 0x60C5, 0x7EEA, 0x6BD4, 0x8F83, 0x654F, 0x611F,
                0xFF0C, 0x56DE, 0x590D, 0x65F6, 0x9700, 0x8981, 0x66F4, 0x591A, 0x8010, 0x5FC3,
                0xFF0C, 0x907F, 0x514D, 0x51B2, 0x7A81]
             else if fge psychological (float_lit 3 1) then
               [0x2022, 0x20, 0x4F60, 0x7684, 0x60C5, 0x7EEA, 0x6709, 0x4E9B, 0x6CE2, 0x52A8,
                0xFF0C, 0x56DE, 0x590D, 0x65F6, 0x4FDD, 0x6301, 0x5E73, 0x548C, 0x5FC3, 0x6001]
             else
               [0x2022, 0x20, 0x4F60, 0x60C5, 0x7EEA, 0x7A33, 0x5B9A, 0x4E50, 0x89C2, 0xFF0C,
                0x53EF, 0x4EE5, 0x6109, 0x5FEB, 0x5730, 0x4EA4, 0x6D41]]
      in py_join [0xA] guidance)"

definition generate_prompt :: "host \<Rightarrow> cycle_state \<Rightarrow> ustr" where
  "generate_prompt h state =
     (let stage_name = st_stage_name_cn state;
          physical = st_physical_impact state;
          psychological = st_psychological_impact state;
          description = st_description state;
          behavior_guidance = get_behavior_guidance physical psychological;
          prompt =
            [0xA, 0x4F60, 0x5F53, 0x524D, 0x5904, 0x4E8E, 0x6708, 0x7ECF, 0x5468, 0x671F,
             0x7684, 0x3010]
            @ stage_name
            @ [0x3011, 0x3002, 0xA, 0x751F, 0x7406, 0x5F71, 0x54CD, 0x7A0B, 0x5EA6, 0x3A, 0x20]
            @ float_repr h physical
            @ [0x2F, 0x31, 0x2E, 0x30, 0xFF0C, 0x5FC3, 0x7406, 0x5F71, 0x54CD, 0x7A0B, 0x5EA6,
               0x3A, 0x20]
            @ float_repr h psychological
            @ [0x2F, 0x31, 0x2E, 0x30, 0x3002, 0xA, 0x5F53, 0x524D, 0x72B6, 0x6001, 0x7279,
               0x70B9, 0x3A, 0x20]
            @ description
            @ [0xA, 0xA]
            @ behavior_guidance
            @ [0xA, 0xA, 0x8BF7, 0x6839, 0x636E, 0x4EE5, 0x4E0A, 0x72B6, 0x6001, 0x7279, 0x70B9,
               0xFF0C, 0x81EA, 0x7136, 0x5730, 0x8C03, 0x6574, 0x4F60, 0x7684, 0x56DE, 0x590D,
               0x98CE, 0x683C, 0x548C, 0x884C, 0x4E3A, 0x8868, 0x73B0, 0xFF0C, 0x4F46, 0x4E0D,
               0x8981, 0x523B, 0x610F, 0x63D0, 0x53CA, 0x6708, 0x7ECF, 0x76F8, 0x5173, 0x8BDD,
               0x9898, 0xFF0C, 0x4FDD, 0x6301, 0x5BF9, 0x8BDD, 0x7684, 0x81EA, 0x7136, 0x6D41,
               0x7545, 0x3002, 0xA]
      in py_strip prompt)"

text \<open>
  \<open>PeriodStatePrompt.execute\<close>: the object's only attribute of its own is its
  \<open>state_manager\<close>, so the manager stands for the object. \<open>PeriodStatePrompt_try\<close> is the
  body of the \<open>try\<close> statement and \<open>PeriodStatePrompt_execute\<close> the whole method, whose
  \<open>except Exception\<close> clause catches every \<open>error\<close>.
\<close>

definition PeriodStatePrompt_try ::
  "config \<Rightarrow> host \<Rightarrow> PeriodStateManager \<Rightarrow> error + ustr \<times> PeriodStateManager"
where
  "PeriodStatePrompt_try cfg h state_manager =
     (let last_period_date = get_config (cycle_last_period_date cfg) [];
          cycle_length = get_config (cycle_cycle_length cfg) 28;
          enabled = get_config (plugin_enabled cfg) False
      in if \<not> enabled \<or> last_period_date = [] then Inr ([], state_manager)
         else case calculate_current_state h state_manager last_period_date cycle_length of
                Inl e \<Rightarrow> Inl e
              | Inr (state, state_manager') \<Rightarrow>
                  (let prompt = generate_prompt h state
                   in Inr (prompt, state_manager')))"

definition PeriodStatePrompt_execute ::
  "config \<Rightarrow> host \<Rightarrow> PeriodStateManager \<Rightarrow> error + ustr \<times> PeriodStateManager"
where
  "PeriodStatePrompt_execute cfg h state_manager =
     (case PeriodStatePrompt_try cfg h state_manager of
        Inr r \<Rightarrow> Inr r
      | Inl e \<Rightarrow> Inr ([], state_manager))"

section \<open>PeriodStatusCommand\<close>

definition stage_emoji :: "(string \<times> ustr) list" where
  "stage_emoji =
     [(''menstrual'', [0x1FA78]),
      (''follicular'', [0x1F331]),
      (''ovulation'', [0x1F95A]),
      (''luteal'', [0x1F342])]"

definition generate_status_report :: "host \<Rightarrow> cycle_state \<Rightarrow> ustr" where
  "generate_status_report h state =
     (let emoji = (case map_of stage_emoji (st_stage state) of Some e \<Rightarrow> e | None \<Rightarrow> [0x2753]);
          report =
            [0xA] @ emoji
            @ [0x20, 0x6708, 0x7ECF, 0x5468, 0x671F, 0x72B6, 0x6001, 0x62A5, 0x544A, 0xA,
               0x2501, 0x2501, 0x2501, 0x2501, 0x2501, 0x2501, 0x2501, 0x2501, 0x2501, 0x2501,
               0x2501, 0x2501, 0x2501, 0x2501, 0x2501, 0x2501, 0x2501, 0x2501, 0xA,
               0x1F4C5, 0x20, 0x5F53, 0x524D, 0x9636, 0x6BB5, 0x3A, 0x20]
            @ st_stage_name_cn state
            @ [0xA, 0x1F522, 0x20, 0x5468, 0x671F, 0x7B2C, 0x20]
            @ str_int (st_current_day state)
            @ [0x20, 0x5929, 0x20, 0x2F, 0x20]
            @ str_int (st_cycle_length state)
            @ [0x20, 0x5929, 0xA, 0xA, 0x1F48A, 0x20, 0x751F, 0x7406, 0x5F71, 0x54CD, 0x3A, 0x20]
            @ float_repr h (st_physical_impact state)
            @ [0x2F, 0x31, 0x2E, 0x30, 0xA, 0x1F4AD, 0x20, 0x5FC3, 0x7406, 0x5F71, 0x54CD, 0x3A,
               0x20]
            @ float_repr h (st_psychological_impact state)
            @ [0x2F, 0x31, 0x2E, 0x30, 0xA, 0xA, 0x1F4DD, 0x20, 0x72B6, 0x6001, 0x63CF, 0x8FF0,
               0x3A, 0xA]
            @ st_description state
            @ [0xA, 0x2501, 0x2501, 0x2501, 0x2501, 0x2501, 0x2501, 0x2501, 0x2501, 0x2501,
               0x2501, 0x2501, 0x2501, 0x2501, 0x2501, 0x2501, 0x2501, 0x2501, 0x2501, 0xA,
               0x1F4A1, 0x20, 0x63D0, 0x793A, 0x3A, 0x20, 0x8FD9, 0x4E9B, 0x72B6, 0x6001, 0x4F1A,
               0x5F71, 0x54CD, 0x6211, 0x7684, 0x56DE, 0x590D, 0x98CE, 0x683C, 0x548C, 0x884C,
               0x4E3A, 0x8868, 0x73B0, 0xA, 0x20, 0x20, 0x20, 0x20, 0x20, 0x20, 0x20, 0x20]
      in py_strip report)"

text \<open>The three messages the command sends when it does not send a report.\<close>

definition msg_not_enabled :: ustr where
  "msg_not_enabled =
     [0x274C, 0x20, 0x6708, 0x7ECF, 0x5468, 0x671F, 0x63D2, 0x4EF6, 0x672A, 0x542F, 0x7528]"

definition msg_not_configured :: ustr where
  "msg_not_configured =
     [0x274C, 0x20, 0x8BF7, 0x5148, 0x914D, 0x7F6E, 0x4E0A, 0x6B21, 0x6708, 0x7ECF, 0x5F00,
      0x59CB, 0x65E5, 0x671F]"

definition msg_query_failed :: ustr where
  "msg_query_failed =
     [0x274C, 0x20, 0x67E5, 0x8BE2, 0x72B6, 0x6001, 0x5931, 0x8D25, 0xFF0C, 0x8BF7, 0x68C0,
      0x67E5, 0x914D, 0x7F6E]"

text \<open>
  The outcome of a run of the command: the texts passed to \<open>send_text\<close>, in order, the
  returned triple (success flag, log text, intercept flag) and the state manager.
  \<open>send_text\<close> is the host's; it is taken to deliver the text and return.
\<close>

record command_outcome =
  sent :: "ustr list"
  returned :: "bool \<times> ustr \<times> bool"
  manager :: PeriodStateManager

definition PeriodStatusCommand_try ::
  "config \<Rightarrow> host \<Rightarrow> PeriodStateManager \<Rightarrow> error + command_outcome"
where
  "PeriodStatusCommand_try cfg h state_manager =
     (let last_period_date = get_config (cycle_last_period_date cfg) [];
          cycle_length = get_config (cycle_cycle_length cfg) 28;
          enabled = get_config (plugin_enabled cfg) False
      in if \<not> enabled then
           Inr \<lparr>sent = [msg_not_enabled],
                returned = (True, [0x63D2, 0x4EF6, 0x672A, 0x542F, 0x7528], True),
                manager = state_manager\<rparr>
         else if last_period_date = [] then
           Inr \<lparr>sent = [msg_not_configured],
                returned = (True, [0x672A, 0x914D, 0x7F6E, 0x6708, 0x7ECF, 0x65E5, 0x671F], True),
                manager = state_manager\<rparr>
         else case calculate_current_state h state_manager last_period_date cycle_length of
                Inl e \<Rightarrow> Inl e
              | Inr (state, state_manager') \<Rightarrow>
                  (let report = generate_status_report h state
                   in Inr \<lparr>sent = [report],
                           returned =
                             (True,
                              [0x53D1, 0x9001, 0x5468, 0x671F, 0x72B6, 0x6001, 0x62A5, 0x544A],
                              True),
                           manager = state_manager'\<rparr>))"

definition PeriodStatusCommand_execute ::
  "config \<Rightarrow> host \<Rightarrow> PeriodStateManager \<Rightarrow> error + command_outcome"
where
  "PeriodStatusCommand_execute cfg h state_manager =
     (case PeriodStatusCommand_try cfg h state_manager of
        Inr r \<Rightarrow> Inr r
      | Inl e \<Rightarrow>
          Inr \<lparr>sent = [msg_query_failed],
               returned = (False, [0x67E5, 0x8BE2, 0x5931, 0x8D25, 0x3A, 0x20] @ exc_str h e, True),
               manager = state_manager\<rparr>)"

section \<open>Predicates used in the statements\<close>

text \<open>\<open>cached_today h self\<close>: the manager holds a state calculated on the host's current
  date, which is the condition under which \<open>calculate_current_state\<close> returns the cache.\<close>

definition cached_today :: "host \<Rightarrow> PeriodStateManager \<Rightarrow> bool" where
  "cached_today h self =
     (last_calculated_date self = Some (now_date_1 h) \<and> current_state self \<noteq> None)"

text \<open>\<open>unit_2dp f\<close>: the float is finite, lies in \<open>[0, 1]\<close> and is its own rounding to two
  decimal places.\<close>

definition unit_2dp :: "float64 \<Rightarrow> bool" where
  "unit_2dp f =
     (case f of Finite r \<Rightarrow> 0 \<le> r \<and> r \<le> 1 \<and> round2 f = Inr f | _ \<Rightarrow> False)"

section \<open>The impact computation as the specification words it\<close>

text \<open>
  The specification gives the impacts by stage: a base pair for each of the four stages;
  for the menstrual stage both values multiplied by
  \<open>intensity = 1.0 - ((dayIndex-1)/5) * 0.3\<close>; for the luteal stage, with
  \<open>dayInStage = dayIndex - 14\<close> and \<open>totalDays = cycleLength - 14\<close>, both multiplied by
  \<open>intensity = 0.7 + (dayInStage/totalDays)*0.3\<close> and capped at 0.8 and 0.7; for the other
  two stages the base pair as it is; both values rounded to two decimal places. The
  division is the one of the code, which has no value for a zero divisor.
\<close>

datatype stage_id = Menstrual | Follicular | Ovulation | Luteal

fun stage_key :: "stage_id \<Rightarrow> string" where
  "stage_key Menstrual = ''menstrual''"
| "stage_key Follicular = ''follicular''"
| "stage_key Ovulation = ''ovulation''"
| "stage_key Luteal = ''luteal''"

fun spec_base_pair :: "stage_id \<Rightarrow> float64 \<times> float64" where
  "spec_base_pair Menstrual = (float_lit 8 1, float_lit 7 1)"
| "spec_base_pair Follicular = (float_lit 1 1, float_lit 1 1)"
| "spec_base_pair Ovulation = (float_lit 4 1, float_lit 2 1)"
| "spec_base_pair Luteal = (float_lit 6 1, float_lit 5 1)"

definition spec_capped :: "float64 \<Rightarrow> float64 \<Rightarrow> float64" where
  "spec_capped x ceiling_value = (if flt ceiling_value x then ceiling_value else x)"

definition spec_rounded :: "float64 \<times> float64 \<Rightarrow> error + float64 \<times> float64" where
  "spec_rounded pq =
     (case round2 (fst pq) of
        Inl e \<Rightarrow> Inl e
      | Inr p \<Rightarrow> (case round2 (snd pq) of Inl e \<Rightarrow> Inl e | Inr q \<Rightarrow> Inr (p, q)))"

fun spec_impacts :: "stage_id \<Rightarrow> int \<Rightarrow> int \<Rightarrow> error + float64 \<times> float64" where
  "spec_impacts Menstrual dayIndex cycleLength =
     (case int_truediv (dayIndex - 1) 5 of
        Inl e \<Rightarrow> Inl e
      | Inr ratio \<Rightarrow>
          (let intensity = fsub (float_lit 10 1) (fmul ratio (float_lit 3 1))
           in spec_rounded (fmul (fst (spec_base_pair Menstrual)) intensity,
                            fmul (snd (spec_base_pair Menstrual)) intensity)))"
| "spec_impacts Luteal dayIndex cycleLength =
     (let dayInStage = dayIndex - 14;
          totalDays = cycleLength - 14
      in case int_truediv dayInStage totalDays of
           Inl e \<Rightarrow> Inl e
         | Inr ratio \<Rightarrow>
             (let intensity = fadd (float_lit 7 1) (fmul ratio (float_lit 3 1))
              in spec_rounded
                   (spec_capped (fmul (fst (spec_base_pair Luteal)) intensity) (float_lit 8 1),
                    spec_capped (fmul (snd (spec_base_pair Luteal)) intensity) (float_lit 7 1))))"
| "spec_impacts Follicular dayIndex cycleLength = spec_rounded (spec_base_pair Follicular)"
| "spec_impacts Ovulation dayIndex cycleLength = spec_rounded (spec_base_pair Ovulation)"

section \<open>Concrete inputs\<close>

text \<open>
  Texts for dates: \<open>2024-01-01\<close> has the ordinal 738886 and \<open>2024-01-25\<close> the ordinal
  738910. \<open>host_on today\<close> is a host whose clock reads \<open>today\<close>, whose date parser knows
  these two texts and rejects every other one, and which renders floats and exceptions
  as the empty text.
\<close>

definition text_2024_01_01 :: ustr where
  "text_2024_01_01 = [0x32, 0x30, 0x32, 0x34, 0x2D, 0x30, 0x31, 0x2D, 0x30, 0x31]"

definition text_2024_01_25 :: ustr where
  "text_2024_01_25 = [0x32, 0x30, 0x32, 0x34, 0x2D, 0x30, 0x31, 0x2D, 0x32, 0x35]"

definition text_not_a_date :: ustr where
  "text_not_a_date = [0x6E, 0x6F, 0x74, 0x2D, 0x61, 0x2D, 0x64, 0x61, 0x74, 0x65]"

definition host_on :: "date \<Rightarrow> host" where
  "host_on today =
     \<lparr>now_date_1 = today,
      now_date_2 = today,
      strptime_date =
        (\<lambda>s. if s = text_2024_01_01 then Some 738886
             else if s = text_2024_01_25 then Some 738910
             else None),
      float_repr = (\<lambda>f. []),
      exc_str = (\<lambda>e. [])\<rparr>"

definition config_of :: "bool \<Rightarrow> ustr \<Rightarrow> int \<Rightarrow> config" where
  "config_of enabled last_period_date cycle_length =
     \<lparr>plugin_enabled = Some enabled,
      cycle_last_period_date = Some last_period_date,
      cycle_cycle_length = Some cycle_length\<rparr>"

section \<open>Rounding to an integer and binary exponents\<close>

lemma rhe_of_int: "round_half_even (of_int n) = n"
  by (simp add: round_half_even_def)

lemma rhe_cases:
  "round_half_even x = \<lfloor>x\<rfloor> \<and> x - of_int \<lfloor>x\<rfloor> \<le> 1 / 2 \<or>
   round_half_even x = \<lfloor>x\<rfloor> + 1 \<and> 1 / 2 \<le> x - of_int \<lfloor>x\<rfloor>"
  unfolding round_half_even_def Let_def by (simp add: not_less)

lemma rhe_bounds: "x - 1 / 2 \<le> of_int (round_half_even x) \<and> of_int (round_half_even x) \<le> x + 1 / 2"
proof -
  have f: "of_int \<lfloor>x\<rfloor> \<le> x" "x < of_int \<lfloor>x\<rfloor> + 1" by linarith+
  from rhe_cases [of x] show ?thesis
  proof
    assume "round_half_even x = \<lfloor>x\<rfloor> \<and> x - of_int \<lfloor>x\<rfloor> \<le> 1 / 2"
    then have e: "round_half_even x = \<lfloor>x\<rfloor>" and c: "x - of_int \<lfloor>x\<rfloor> \<le> 1 / 2" by blast+
    show ?thesis unfolding e using f c by (intro conjI; linarith)
  next
    assume "round_half_even x = \<lfloor>x\<rfloor> + 1 \<and> 1 / 2 \<le> x - of_int \<lfloor>x\<rfloor>"
    then have e: "round_half_even x = \<lfloor>x\<rfloor> + 1" and c: "1 / 2 \<le> x - of_int \<lfloor>x\<rfloor>" by blast+
    show ?thesis unfolding e using f c by (intro conjI; linarith)
  qed
qed

lemma rhe_near: "\<bar>y - of_int k\<bar> < 1 / 2 \<Longrightarrow> round_half_even y = k"
proof -
  assume a: "\<bar>y - of_int k\<bar> < 1 / 2"
  let ?m = "round_half_even y"
  have "\<bar>of_int ?m - y\<bar> \<le> 1 / 2" using rhe_bounds [of y] by linarith
  then have "\<bar>(of_int ?m :: rat) - of_int k\<bar> < 1" using a by linarith
  then have "\<bar>(of_int (?m - k) :: rat)\<bar> < 1" by simp
  then have "\<bar>?m - k\<bar> < 1" by (metis of_int_abs of_int_less_1_iff)
  then show ?thesis by linarith
qed

lemma rhe_mono: "x \<le> y \<Longrightarrow> round_half_even x \<le> round_half_even y"
proof -
  assume xy: "x \<le> y"
  have fm: "\<lfloor>x\<rfloor> \<le> \<lfloor>y\<rfloor>" using xy by (rule floor_mono)
  show ?thesis
  proof (cases "\<lfloor>x\<rfloor> = \<lfloor>y\<rfloor>")
    case True
    have "x - of_int \<lfloor>y\<rfloor> \<le> y - of_int \<lfloor>y\<rfloor>" using xy by simp
    then show ?thesis unfolding round_half_even_def Let_def True by simp
  next
    case False
    then have "\<lfloor>x\<rfloor> + 1 \<le> \<lfloor>y\<rfloor>" using fm by linarith
    moreover have "round_half_even x \<le> \<lfloor>x\<rfloor> + 1" using rhe_cases [of x] by linarith
    moreover have "\<lfloor>y\<rfloor> \<le> round_half_even y" using rhe_cases [of y] by linarith
    ultimately show ?thesis by linarith
  qed
qed

lemma rhe_nonneg: "0 \<le> x \<Longrightarrow> 0 \<le> round_half_even x"
  using rhe_mono [of 0 x] rhe_of_int [of 0] by simp

lemma ilog2_up_le: "1 \<le> x \<Longrightarrow> 2 powi (ilog2_up x) \<le> x"
proof (induction x rule: ilog2_up.induct)
  case (1 x)
  show ?case
  proof (cases "x < 2")
    case True
    then show ?thesis using "1.prems" by (simp add: ilog2_up.simps)
  next
    case False
    then have "1 \<le> x / 2" by simp
    then have ih: "2 powi (ilog2_up (x / 2)) \<le> x / 2" using "1.IH" False by simp
    have "ilog2_up x = ilog2_up (x / 2) + 1" using False by (simp add: ilog2_up.simps)
    then have "(2::rat) powi (ilog2_up x) = 2 powi (ilog2_up (x / 2)) * 2"
      by (simp add: power_int_add)
    then show ?thesis using ih by simp
  qed
qed

lemma ilog2_down_le: "0 < x \<Longrightarrow> x < 1 \<Longrightarrow> 2 powi (ilog2_down x) \<le> x"
proof (induction x rule: ilog2_down.induct)
  case (1 x)
  have step: "ilog2_down x = ilog2_down (2 * x) - 1" using "1.prems" by (simp add: ilog2_down.simps)
  have p: "(2::rat) powi (ilog2_down x) = 2 powi (ilog2_down (2 * x)) / 2"
    unfolding step by (simp add: power_int_diff)
  show ?case
  proof (cases "2 * x < 1")
    case True
    then have "2 powi (ilog2_down (2 * x)) \<le> 2 * x" using "1.IH" "1.prems" by simp
    then show ?thesis using p by simp
  next
    case False
    then have "ilog2_down (2 * x) = 0" by (simp add: ilog2_down.simps)
    then show ?thesis using p False by simp
  qed
qed

lemma ilog2_le: "0 < x \<Longrightarrow> 2 powi (ilog2 x) \<le> x"
  by (simp add: ilog2_def ilog2_up_le ilog2_down_le)

lemma ilog2_le_bound: "0 < x \<Longrightarrow> x \<le> 2 powi k \<Longrightarrow> ilog2 x \<le> k"
proof (rule ccontr)
  assume "0 < x" "x \<le> 2 powi k" "\<not> ilog2 x \<le> k"
  then have "(2::rat) powi k < 2 powi (ilog2 x)"
    by (intro power_int_strict_increasing) simp_all
  then show False using ilog2_le [of x] \<open>0 < x\<close> \<open>x \<le> 2 powi k\<close> by linarith
qed

section \<open>Rounding to binary64\<close>

lemma rnd64_bounded:
  assumes "0 \<le> x" "x \<le> 2 powi k" "- 1022 \<le> k" "k \<le> 1023"
  shows "\<exists>r. rnd64 x = Finite r \<and> 0 \<le> r \<and> r \<le> 2 powi k"
proof (cases "x = 0")
  case True
  then show ?thesis by (simp add: rnd64_def)
next
  case False
  then have xpos: "0 < x" using assms(1) by simp
  define e where "e = max (ilog2 \<bar>x\<bar>) (- 1022)"
  define u :: rat where "u = 2 powi (e - 52)"
  define m where "m = round_half_even (x / u)"
  have ek: "e \<le> k" using ilog2_le_bound [OF xpos assms(2)] assms(3) xpos by (simp add: e_def)
  have upos: "0 < u" by (simp add: u_def)
  have "0 \<le> x / u" using xpos upos by simp
  then have m0: "0 \<le> m" unfolding m_def by (rule rhe_nonneg)
  have pk: "(2::rat) powi k = 2 powi (k - e + 52) * u"
    unfolding u_def by (simp flip: power_int_add)
  have "(2::rat) powi (k - e + 52) = of_int (2 ^ nat (k - e + 52))"
    using ek by (simp add: power_int_def)
  then have "x / u \<le> of_int (2 ^ nat (k - e + 52))"
    using assms(2) upos pk by (simp add: pos_divide_le_eq)
  then have "m \<le> 2 ^ nat (k - e + 52)"
    unfolding m_def using rhe_mono rhe_of_int by metis
  then have "(of_int m :: rat) \<le> of_int (2 ^ nat (k - e + 52))" by (simp only: of_int_le_iff)
  then have "(of_int m :: rat) \<le> 2 powi (k - e + 52)"
    using \<open>(2::rat) powi (k - e + 52) = of_int (2 ^ nat (k - e + 52))\<close> by simp
  then have rk: "of_int m * u \<le> 2 powi k" using upos pk by simp
  have r0: "0 \<le> of_int m * u" using m0 upos by simp
  have "(2::rat) powi k \<le> 2 powi 1023" using assms(4) by (intro power_int_increasing) simp_all
  also have "\<dots> < 2 ^ 1024" by (simp add: power_int_def)
  finally have "\<not> 2 ^ 1024 \<le> \<bar>of_int m * u\<bar>" using rk r0 by linarith
  then have "rnd64 x = Finite (of_int m * u)"
    using False unfolding rnd64_def Let_def m_def u_def e_def by simp
  then show ?thesis using r0 rk by blast
qed

lemma rnd64_unit: "0 \<le> x \<Longrightarrow> x \<le> 1 \<Longrightarrow> \<exists>r. rnd64 x = Finite r \<and> 0 \<le> r \<and> r \<le> 1"
  using rnd64_bounded [of x 0] by simp

lemma rnd64_two: "0 \<le> x \<Longrightarrow> x \<le> 2 \<Longrightarrow> \<exists>r. rnd64 x = Finite r \<and> 0 \<le> r \<and> r \<le> 2"
  using rnd64_bounded [of x 1] by simp

lemma rnd64_error:
  assumes "0 \<le> x" "x \<le> 1" "rnd64 x = Finite r"
  shows "\<bar>r - x\<bar> \<le> 1 / 2 ^ 53"
proof (cases "x = 0")
  case True
  then show ?thesis using assms(3) by (simp add: rnd64_def)
next
  case False
  then have xpos: "0 < x" using assms(1) by simp
  define e where "e = max (ilog2 \<bar>x\<bar>) (- 1022)"
  define u :: rat where "u = 2 powi (e - 52)"
  define m where "m = round_half_even (x / u)"
  have "x \<le> 2 powi 0" using assms(2) by simp
  then have e0: "e \<le> 0" using ilog2_le_bound [OF xpos, of 0] xpos by (simp add: e_def)
  have upos: "0 < u" by (simp add: u_def)
  have "u \<le> 2 powi (- 52)" unfolding u_def using e0 by (intro power_int_increasing) simp_all
  then have u52: "u \<le> 1 / 2 ^ 52" by (simp add: power_int_minus field_simps)
  have "rnd64 x = Finite (of_int m * u) \<or> rnd64 x = PInf \<or> rnd64 x = NInf"
    using False unfolding rnd64_def Let_def m_def u_def e_def by simp
  then have r: "r = of_int m * u" using assms(3) by auto
  have "\<bar>of_int m - x / u\<bar> \<le> 1 / 2" unfolding m_def using rhe_bounds [of "x / u"] by linarith
  then have "\<bar>of_int m - x / u\<bar> * u \<le> 1 / 2 * u" using upos by (simp only: mult_le_cancel_right_pos)
  moreover have "\<bar>of_int m - x / u\<bar> * u = \<bar>of_int m * u - x\<bar>"
    using upos by (simp add: abs_mult_pos' [symmetric] field_simps del: abs_mult_pos')
  ultimately have "\<bar>r - x\<bar> \<le> u / 2" using r by simp
  also have "\<dots> \<le> 1 / 2 ^ 53" using u52 by simp
  finally show ?thesis .
qed

lemma round2_fixed:
  assumes "0 \<le> k" "k \<le> 100" "rnd64 (of_int k / 100) = Finite r"
  shows "round2 (Finite r) = Inr (Finite r)"
proof -
  have "\<bar>r - of_int k / 100\<bar> \<le> 1 / 2 ^ 53"
    using assms by (intro rnd64_error) simp_all
  then have "\<bar>r * 100 - of_int k\<bar> \<le> 100 / 2 ^ 53" by (simp add: field_simps abs_if split: if_splits)
  also have "\<dots> < 1 / 2" by simp
  finally have "round_half_even (r * 100) = k" by (rule rhe_near)
  then show ?thesis using assms(3) by (simp add: round2_def)
qed

lemma round2_unit:
  assumes "0 \<le> a" "a \<le> 1"
  shows "\<exists>r. round2 (Finite a) = Inr (Finite r) \<and> 0 \<le> r \<and> r \<le> 1 \<and> round2 (Finite r) = Inr (Finite r)"
proof -
  define k where "k = round_half_even (a * 100)"
  have k0: "0 \<le> k" unfolding k_def using assms(1) by (intro rhe_nonneg) simp
  have "a * 100 \<le> of_int 100" using assms(2) by simp
  then have "k \<le> round_half_even (of_int 100)" unfolding k_def by (rule rhe_mono)
  then have k100: "k \<le> 100" by (simp only: rhe_of_int)
  have "0 \<le> (of_int k :: rat) / 100" "(of_int k :: rat) / 100 \<le> 1" using k0 k100 by simp_all
  then obtain r where r: "rnd64 (of_int k / 100) = Finite r" "0 \<le> r" "r \<le> 1"
    using rnd64_unit by blast
  have "round2 (Finite a) = Inr (Finite r)" using r(1) by (simp add: round2_def k_def)
  moreover have "round2 (Finite r) = Inr (Finite r)" using k0 k100 r(1) by (rule round2_fixed)
  ultimately show ?thesis using r by blast
qed

section \<open>The impact computation, stage by stage\<close>

lemma float_lit_unit:
  "0 \<le> m \<Longrightarrow> m \<le> 10 ^ k \<Longrightarrow> \<exists>r. float_lit m k = Finite r \<and> 0 \<le> r \<and> r \<le> 1"
proof -
  assume "0 \<le> m" "m \<le> 10 ^ k"
  then have "(of_int m :: rat) \<le> of_int (10 ^ k)" by (simp only: of_int_le_iff)
  then have "(of_int m :: rat) / 10 ^ k \<le> 1" by simp
  then show ?thesis unfolding float_lit_def using \<open>0 \<le> m\<close> by (intro rnd64_unit) simp_all
qed

lemma fmul_unit:
  "0 \<le> a \<Longrightarrow> a \<le> 1 \<Longrightarrow> 0 \<le> b \<Longrightarrow> b \<le> 1 \<Longrightarrow>
   \<exists>r. fmul (Finite a) (Finite b) = Finite r \<and> 0 \<le> r \<and> r \<le> 1"
  by (simp add: rnd64_unit mult_le_one)

lemma fmul_two:
  assumes "0 \<le> a" "a \<le> 1" "0 \<le> b" "b \<le> 2"
  shows "\<exists>r. fmul (Finite a) (Finite b) = Finite r \<and> 0 \<le> r \<and> r \<le> 2"
proof -
  have "a * b \<le> 1 * 2" using assms by (intro mult_mono) simp_all
  then show ?thesis using assms by (simp add: rnd64_two)
qed

lemma fsub_unit:
  "0 \<le> b \<Longrightarrow> b \<le> 1 \<Longrightarrow> \<exists>r. fsub (Finite 1) (Finite b) = Finite r \<and> 0 \<le> r \<and> r \<le> 1"
  by (simp add: rnd64_unit)

lemma floor_rat_numeral [simp]: "\<lfloor>numeral a / numeral b :: rat\<rfloor> = numeral a div numeral b"
  by (metis floor_divide_of_int_eq of_int_numeral)

lemmas rnd64_eval =
  rnd64_def ilog2_def ilog2_down.simps ilog2_up.simps round_half_even_def Let_def power_int_minus

lemma float_lit_one: "float_lit 10 1 = Finite 1"
  by (simp add: float_lit_def rnd64_eval)

lemma fadd_two:
  "0 \<le> a \<Longrightarrow> a \<le> 1 \<Longrightarrow> 0 \<le> b \<Longrightarrow> b \<le> 1 \<Longrightarrow>
   \<exists>r. fadd (Finite a) (Finite b) = Finite r \<and> 0 \<le> r \<and> r \<le> 2"
  by (simp add: rnd64_two)

lemma int_truediv_unit:
  assumes "0 \<le> a" "a \<le> b" "0 < b"
  shows "\<exists>r. int_truediv a b = Inr (Finite r) \<and> 0 \<le> r \<and> r \<le> 1"
proof -
  have "0 \<le> (of_int a :: rat) / of_int b" "(of_int a :: rat) / of_int b \<le> 1"
    using assms by simp_all
  then obtain r where "rnd64 (of_int a / of_int b) = Finite r" "0 \<le> r" "r \<le> 1"
    using rnd64_unit by blast
  then show ?thesis using assms(3) by (simp add: int_truediv_def)
qed

lemma py_min_unit:
  "0 \<le> a \<Longrightarrow> 0 \<le> c \<Longrightarrow> c \<le> 1 \<Longrightarrow>
   \<exists>r. py_min (Finite a) (Finite c) = Finite r \<and> 0 \<le> r \<and> r \<le> 1"
  by (simp add: py_min_def)

lemma round2_unit_2dp:
  assumes "0 \<le> a" "a \<le> 1"
  shows "\<exists>f. round2 (Finite a) = Inr f \<and> unit_2dp f"
  using round2_unit [OF assms] by (auto simp: unit_2dp_def)

lemma base_impacts_lookup:
  "map_of base_impacts ''menstrual'' = Some (float_lit 8 1, float_lit 7 1)"
  "map_of base_impacts ''follicular'' = Some (float_lit 1 1, float_lit 1 1)"
  "map_of base_impacts ''ovulation'' = Some (float_lit 4 1, float_lit 2 1)"
  "map_of base_impacts ''luteal'' = Some (float_lit 6 1, float_lit 5 1)"
  by (simp_all add: base_impacts_def)

lemma calculate_impacts_menstrual:
  "calculate_impacts ''menstrual'' d cl =
     (case int_truediv (d - 1) 5 of
        Inl e \<Rightarrow> Inl e
      | Inr q \<Rightarrow>
          spec_rounded
            (fmul (float_lit 8 1) (fsub (float_lit 10 1) (fmul q (float_lit 3 1))),
             fmul (float_lit 7 1) (fsub (float_lit 10 1) (fmul q (float_lit 3 1)))))"
  unfolding calculate_impacts_def base_impacts_lookup spec_rounded_def Let_def
  by (simp split: sum.splits)

lemma calculate_impacts_luteal:
  "calculate_impacts ''luteal'' d cl =
     (case int_truediv (d - 14) (cl - 14) of
        Inl e \<Rightarrow> Inl e
      | Inr q \<Rightarrow>
          spec_rounded
            (py_min (fmul (float_lit 6 1) (fadd (float_lit 7 1) (fmul q (float_lit 3 1))))
               (float_lit 8 1),
             py_min (fmul (float_lit 5 1) (fadd (float_lit 7 1) (fmul q (float_lit 3 1))))
               (float_lit 7 1)))"
  unfolding calculate_impacts_def base_impacts_lookup spec_rounded_def Let_def
  by (simp split: sum.splits)

lemma calculate_impacts_follicular:
  "calculate_impacts ''follicular'' d cl = spec_rounded (float_lit 1 1, float_lit 1 1)"
  unfolding calculate_impacts_def base_impacts_lookup spec_rounded_def Let_def
  by (simp split: sum.splits)

lemma calculate_impacts_ovulation:
  "calculate_impacts ''ovulation'' d cl = spec_rounded (float_lit 4 1, float_lit 2 1)"
  unfolding calculate_impacts_def base_impacts_lookup spec_rounded_def Let_def
  by (simp split: sum.splits)

lemma spec_rounded_unit:
  assumes "0 \<le> x" "x \<le> 1" "0 \<le> y" "y \<le> 1"
  shows "\<exists>p q. spec_rounded (Finite x, Finite y) = Inr (p, q) \<and> unit_2dp p \<and> unit_2dp q"
proof -
  obtain p where p: "round2 (Finite x) = Inr p" "unit_2dp p"
    using round2_unit_2dp [OF assms(1,2)] by auto
  obtain q where q: "round2 (Finite y) = Inr q" "unit_2dp q"
    using round2_unit_2dp [OF assms(3,4)] by auto
  show ?thesis using p q by (simp add: spec_rounded_def)
qed

lemma impacts_menstrual:
  assumes "1 \<le> d" "d \<le> 5"
  shows "\<exists>p q. calculate_impacts ''menstrual'' d cl = Inr (p, q) \<and> unit_2dp p \<and> unit_2dp q"
proof -
  obtain b1 where b1: "float_lit 8 1 = Finite b1" "0 \<le> b1" "b1 \<le> 1"
    using float_lit_unit [of 8 1] by auto
  obtain b2 where b2: "float_lit 7 1 = Finite b2" "0 \<le> b2" "b2 \<le> 1"
    using float_lit_unit [of 7 1] by auto
  obtain c where c: "float_lit 3 1 = Finite c" "0 \<le> c" "c \<le> 1"
    using float_lit_unit [of 3 1] by auto
  obtain t where t: "int_truediv (d - 1) 5 = Inr (Finite t)" "0 \<le> t" "t \<le> 1"
    using int_truediv_unit [of "d - 1" 5] assms by auto
  obtain s where s: "fmul (Finite t) (Finite c) = Finite s" "0 \<le> s" "s \<le> 1"
    using fmul_unit [OF t(2,3) c(2,3)] by auto
  obtain i where i: "fsub (Finite 1) (Finite s) = Finite i" "0 \<le> i" "i \<le> 1"
    using fsub_unit [OF s(2,3)] by auto
  obtain x where x: "fmul (Finite b1) (Finite i) = Finite x" "0 \<le> x" "x \<le> 1"
    using fmul_unit [OF b1(2,3) i(2,3)] by auto
  obtain y where y: "fmul (Finite b2) (Finite i) = Finite y" "0 \<le> y" "y \<le> 1"
    using fmul_unit [OF b2(2,3) i(2,3)] by auto
  have "calculate_impacts ''menstrual'' d cl = spec_rounded (Finite x, Finite y)"
    unfolding calculate_impacts_menstrual t sum.case b1 b2 c float_lit_one s i x y ..
  then show ?thesis using spec_rounded_unit [OF x(2,3) y(2,3)] by simp
qed

lemma impacts_luteal:
  assumes "15 \<le> d" "d \<le> cl"
  shows "\<exists>p q. calculate_impacts ''luteal'' d cl = Inr (p, q) \<and> unit_2dp p \<and> unit_2dp q"
proof -
  obtain b1 where b1: "float_lit 6 1 = Finite b1" "0 \<le> b1" "b1 \<le> 1"
    using float_lit_unit [of 6 1] by auto
  obtain b2 where b2: "float_lit 5 1 = Finite b2" "0 \<le> b2" "b2 \<le> 1"
    using float_lit_unit [of 5 1] by auto
  obtain c where c: "float_lit 3 1 = Finite c" "0 \<le> c" "c \<le> 1"
    using float_lit_unit [of 3 1] by auto
  obtain a where a: "float_lit 7 1 = Finite a" "0 \<le> a" "a \<le> 1"
    using float_lit_unit [of 7 1] by auto
  obtain c8 where c8: "float_lit 8 1 = Finite c8" "0 \<le> c8" "c8 \<le> 1"
    using float_lit_unit [of 8 1] by auto
  obtain t where t: "int_truediv (d - 14) (cl - 14) = Inr (Finite t)" "0 \<le> t" "t \<le> 1"
    using int_truediv_unit [of "d - 14" "cl - 14"] assms by auto
  obtain s where s: "fmul (Finite t) (Finite c) = Finite s" "0 \<le> s" "s \<le> 1"
    using fmul_unit [OF t(2,3) c(2,3)] by auto
  obtain i where i: "fadd (Finite a) (Finite s) = Finite i" "0 \<le> i" "i \<le> 2"
    using fadd_two [OF a(2,3) s(2,3)] by auto
  obtain x0 where x0: "fmul (Finite b1) (Finite i) = Finite x0" "0 \<le> x0" "x0 \<le> 2"
    using fmul_two [OF b1(2,3) i(2,3)] by auto
  obtain y0 where y0: "fmul (Finite b2) (Finite i) = Finite y0" "0 \<le> y0" "y0 \<le> 2"
    using fmul_two [OF b2(2,3) i(2,3)] by auto
  obtain x where x: "py_min (Finite x0) (Finite c8) = Finite x" "0 \<le> x" "x \<le> 1"
    using py_min_unit [OF x0(2) c8(2,3)] by auto
  obtain y where y: "py_min (Finite y0) (Finite a) = Finite y" "0 \<le> y" "y \<le> 1"
    using py_min_unit [OF y0(2) a(2,3)] by auto
  have "calculate_impacts ''luteal'' d cl = spec_rounded (Finite x, Finite y)"
    unfolding calculate_impacts_luteal t sum.case b1 b2 c a c8 s i x0 y0 x y ..
  then show ?thesis using spec_rounded_unit [OF x(2,3) y(2,3)] by simp
qed

lemma impacts_follicular:
  "\<exists>p q. calculate_impacts ''follicular'' d cl = Inr (p, q) \<and> unit_2dp p \<and> unit_2dp q"
proof -
  obtain b where b: "float_lit 1 1 = Finite b" "0 \<le> b" "b \<le> 1"
    using float_lit_unit [of 1 1] by auto
  show ?thesis unfolding calculate_impacts_follicular b(1)
    using spec_rounded_unit [OF b(2,3) b(2,3)] .
qed

lemma impacts_ovulation:
  "\<exists>p q. calculate_impacts ''ovulation'' d cl = Inr (p, q) \<and> unit_2dp p \<and> unit_2dp q"
proof -
  obtain b1 where b1: "float_lit 4 1 = Finite b1" "0 \<le> b1" "b1 \<le> 1"
    using float_lit_unit [of 4 1] by auto
  obtain b2 where b2: "float_lit 2 1 = Finite b2" "0 \<le> b2" "b2 \<le> 1"
    using float_lit_unit [of 2 1] by auto
  show ?thesis unfolding calculate_impacts_ovulation b1(1) b2(1)
    using spec_rounded_unit [OF b1(2,3) b2(2,3)] .
qed

section \<open>The calculation of a fresh state, the cache and concrete runs\<close>

lemma calculate_cached:
  assumes "last_calculated_date self = Some (now_date_1 h)" "current_state self = Some st"
  shows "calculate_current_state h self s cl = Inr (st, self)"
  using assms by (simp add: calculate_current_state_def)

lemma calculate_stores:
  assumes "calculate_current_state h self s cl = Inr (st, self')"
  shows "last_calculated_date self' = Some (now_date_1 h) \<and> current_state self' = Some st"
proof (cases "cached_today h self")
  case True
  then obtain c where c: "current_state self = Some c" and
    d: "last_calculated_date self = Some (now_date_1 h)"
    by (auto simp: cached_today_def)
  then have "calculate_current_state h self s cl = Inr (c, self)" by (simp add: calculate_cached)
  then show ?thesis using assms c d by simp
next
  case False
  then show ?thesis using assms
    unfolding calculate_current_state_def cached_today_def Let_def
    by (auto split: sum.splits if_splits prod.splits)
qed

lemma calculate_stage:
  assumes "\<not> cached_today h self" "calculate_current_state h self s cl = Inr (st, self')"
  shows "st_stage st =
     (if st_current_day st \<le> 5 then ''menstrual''
      else if st_current_day st \<le> 13 then ''follicular''
      else if st_current_day st = 14 then ''ovulation''
      else ''luteal'')"
  using assms unfolding calculate_current_state_def cached_today_def Let_def
  by (auto split: sum.splits if_splits prod.splits)

lemma calculate_fresh:
  assumes "\<not> cached_today h self" "0 < cl"
  shows "\<exists>st. calculate_current_state h self s cl =
            Inr (st, self\<lparr>current_state := Some st, last_calculated_date := Some (now_date_1 h)\<rparr>)
     \<and> st_current_day st =
         (now_date_1 h - (case strptime_date h s of Some d \<Rightarrow> d | None \<Rightarrow> now_date_2 h - 14)) mod cl + 1
     \<and> 1 \<le> st_current_day st \<and> st_current_day st \<le> cl
     \<and> st_cycle_length st = cl
     \<and> st_stage st =
         (if st_current_day st \<le> 5 then ''menstrual''
          else if st_current_day st \<le> 13 then ''follicular''
          else if st_current_day st = 14 then ''ovulation''
          else ''luteal'')
     \<and> st_stage_name_cn st = get_stage_name_cn (st_stage st)
     \<and> st_description st = get_stage_description (st_stage st)
     \<and> unit_2dp (st_physical_impact st) \<and> unit_2dp (st_psychological_impact st)
     \<and> calculate_impacts (st_stage st) (st_current_day st) cl =
         Inr (st_physical_impact st, st_psychological_impact st)"
proof -
  define last_date where
    "last_date = (case strptime_date h s of Some d \<Rightarrow> d | None \<Rightarrow> now_date_2 h - 14)"
  define d where "d = (now_date_1 h - last_date) mod cl + 1"
  define stage where
    "stage = (if d \<le> 5 then ''menstrual'' else if d \<le> 13 then ''follicular''
              else if d = 14 then ''ovulation'' else ''luteal'')"
  have "0 \<le> (now_date_1 h - last_date) mod cl" "(now_date_1 h - last_date) mod cl < cl"
    using assms(2) by simp_all
  then have d1: "1 \<le> d" and dcl: "d \<le> cl"
    unfolding d_def by linarith+
  have md: "py_mod (now_date_1 h - last_date) cl = Inr (d - 1)"
    using assms(2) by (simp add: py_mod_def d_def)
  have "\<exists>p q. calculate_impacts stage d cl = Inr (p, q) \<and> unit_2dp p \<and> unit_2dp q"
  proof -
    consider "d \<le> 5" | "6 \<le> d" "d \<le> 13" | "d = 14" | "15 \<le> d" by linarith
    then show ?thesis
    proof cases
      case 1
      then show ?thesis using impacts_menstrual [OF d1] by (simp add: stage_def)
    next
      case 2
      then show ?thesis using impacts_follicular by (simp add: stage_def)
    next
      case 3
      then show ?thesis using impacts_ovulation by (simp add: stage_def)
    next
      case 4
      then show ?thesis using impacts_luteal [OF _ dcl] by (simp add: stage_def)
    qed
  qed
  then obtain p q where pq: "calculate_impacts stage d cl = Inr (p, q)" "unit_2dp p" "unit_2dp q"
    by blast
  define st where
    "st = \<lparr>st_stage = stage, st_current_day = d, st_cycle_length = cl,
           st_physical_impact = p, st_psychological_impact = q,
           st_stage_name_cn = get_stage_name_cn stage,
           st_description = get_stage_description stage\<rparr>"
  have miss: "(last_calculated_date self = Some (now_date_1 h) \<and> current_state self \<noteq> None) = False"
    using assms(1) by (simp add: cached_today_def)
  have d_eq: "d - 1 + 1 = d" by simp
  have "calculate_current_state h self s cl =
          Inr (st, self\<lparr>current_state := Some st, last_calculated_date := Some (now_date_1 h)\<rparr>)"
    unfolding calculate_current_state_def Let_def miss if_False
      last_date_def [symmetric] md sum.case d_eq stage_def [symmetric] pq(1) prod.case
      st_def [symmetric] ..
  moreover have "st_current_day st = d" "st_stage st = stage" "st_cycle_length st = cl"
    "st_physical_impact st = p" "st_psychological_impact st = q"
    "st_stage_name_cn st = get_stage_name_cn stage"
    "st_description st = get_stage_description stage"
    by (simp_all add: st_def)
  ultimately show ?thesis
    using d1 dcl pq unfolding d_def last_date_def stage_def by (intro exI [of _ st]) simp
qed

lemma host_on_simps:
  "now_date_1 (host_on t) = t" "now_date_2 (host_on t) = t"
  "strptime_date (host_on t) text_2024_01_01 = Some 738886"
  "strptime_date (host_on t) text_2024_01_25 = Some 738910"
  "strptime_date (host_on t) text_not_a_date = None"
  by (simp_all add: host_on_def text_2024_01_01_def text_2024_01_25_def text_not_a_date_def)

lemma init_not_cached: "\<not> cached_today h init_manager"
  by (simp add: cached_today_def init_manager_def)

lemma run_on_day:
  "\<exists>st self'. calculate_current_state (host_on (738886 + k)) init_manager text_2024_01_01 28 = Inr (st, self')
     \<and> st_current_day st = k mod 28 + 1"
  using calculate_fresh [OF init_not_cached, of 28 "host_on (738886 + k)" text_2024_01_01]
  by (auto simp: host_on_simps)

lemma calculate_never_raises:
  assumes "0 < cl"
  shows "\<exists>st self'. calculate_current_state h self s cl = Inr (st, self')"
proof (cases "cached_today h self")
  case True
  then obtain c where "current_state self = Some c" "last_calculated_date self = Some (now_date_1 h)"
    by (auto simp: cached_today_def)
  then show ?thesis using calculate_cached by blast
next
  case False
  then show ?thesis using calculate_fresh [OF False assms, of s] by blast
qed

lemma calculate_uses_parser_result:
  assumes "\<not> cached_today h self"
    and "(case strptime_date h s of Some d \<Rightarrow> d | None \<Rightarrow> now_date_2 h - 14) =
         (case strptime_date h' s' of Some d \<Rightarrow> d | None \<Rightarrow> now_date_2 h' - 14)"
    and "now_date_1 h' = now_date_1 h"
  shows "calculate_current_state h self s cl = calculate_current_state h' self s' cl"
proof -
  have miss: "(last_calculated_date self = Some (now_date_1 h) \<and> current_state self \<noteq> None) = False"
    using assms(1) by (simp add: cached_today_def)
  show ?thesis
    unfolding calculate_current_state_def Let_def assms(3) miss if_False assms(2) ..
qed

lemma stage_name_cases:
  "get_stage_name_cn ''menstrual'' = [0x6708, 0x7ECF, 0x671F]"
  "get_stage_name_cn ''follicular'' = [0x5375, 0x6CE1, 0x671F]"
  "get_stage_name_cn ''ovulation'' = [0x6392, 0x5375, 0x671F]"
  "get_stage_name_cn ''luteal'' = [0x9EC4, 0x4F53, 0x671F]"
  by (simp_all add: get_stage_name_cn_def stage_names_def)

lemma stage_description_nonempty:
  "get_stage_description ''menstrual'' \<noteq> []"
  "get_stage_description ''follicular'' \<noteq> []"
  "get_stage_description ''ovulation'' \<noteq> []"
  "get_stage_description ''luteal'' \<noteq> []"
  by (simp_all add: get_stage_description_def stage_descriptions_def)

lemma float_lit_values:
  "float_lit 8 1 = Finite (3602879701896397 / 4503599627370496)"
  "float_lit 80 2 = Finite (3602879701896397 / 4503599627370496)"
  "float_lit 7 1 = Finite (3152519739159347 / 4503599627370496)"
  "float_lit 70 2 = Finite (3152519739159347 / 4503599627370496)"
  "float_lit 3 1 = Finite (5404319552844595 / 18014398509481984)"
  by (simp_all add: float_lit_def rnd64_eval)

lemma rnd64_fixed_values:
  "rnd64 (3602879701896397 / 4503599627370496) = Finite (3602879701896397 / 4503599627370496)"
  "rnd64 (3152519739159347 / 4503599627370496) = Finite (3152519739159347 / 4503599627370496)"
  "rnd64 1 = Finite 1"
  by (simp_all add: rnd64_eval)

lemma round2_base_values:
  "round2 (Finite (3602879701896397 / 4503599627370496)) =
     Inr (Finite (3602879701896397 / 4503599627370496))"
  "round2 (Finite (3152519739159347 / 4503599627370496)) =
     Inr (Finite (3152519739159347 / 4503599627370496))"
proof -
  have "rnd64 (of_int 80 / 100) = Finite (3602879701896397 / 4503599627370496)"
    by (simp add: rnd64_eval)
  then show "round2 (Finite (3602879701896397 / 4503599627370496)) =
     Inr (Finite (3602879701896397 / 4503599627370496))"
    by (intro round2_fixed [of 80]) simp_all
  have "rnd64 (of_int 70 / 100) = Finite (3152519739159347 / 4503599627370496)"
    by (simp add: rnd64_eval)
  then show "round2 (Finite (3152519739159347 / 4503599627370496)) =
     Inr (Finite (3152519739159347 / 4503599627370496))"
    by (intro round2_fixed [of 70]) simp_all
qed

lemma menstrual_day_one:
  "calculate_impacts ''menstrual'' 1 cl = Inr (float_lit 80 2, float_lit 70 2)"
proof -
  have q: "int_truediv (1 - 1) 5 = Inr (Finite 0)" by (simp add: int_truediv_def rnd64_def)
  have m: "fmul (Finite 0) (float_lit 3 1) = Finite 0"
    unfolding float_lit_values by (simp add: rnd64_def)
  have i: "fsub (float_lit 10 1) (Finite 0) = Finite 1"
    unfolding float_lit_one by (simp add: rnd64_fixed_values)
  have x: "fmul (float_lit 8 1) (Finite 1) = Finite (3602879701896397 / 4503599627370496)"
    unfolding float_lit_values by (simp add: rnd64_fixed_values)
  have y: "fmul (float_lit 7 1) (Finite 1) = Finite (3152519739159347 / 4503599627370496)"
    unfolding float_lit_values by (simp add: rnd64_fixed_values)
  show ?thesis
    unfolding calculate_impacts_menstrual q sum.case m i x y
    unfolding spec_rounded_def fst_conv snd_conv round2_base_values sum.case float_lit_values ..
qed

lemma spec_capped_is_min: "spec_capped x c = py_min x c"
  by (simp add: spec_capped_def py_min_def)

lemma more_float_lit_values:
  "float_lit 6 1 = Finite (5404319552844595 / 9007199254740992)"
  "float_lit 5 1 = Finite (1 / 2)"
  by (simp_all add: float_lit_def rnd64_eval)

lemma luteal_20_28:
  "calculate_impacts ''luteal'' 20 28 =
     Inr (Finite (1 / 2), Finite (7385903388887613 / 18014398509481984))"
  unfolding calculate_impacts_luteal float_lit_values more_float_lit_values
  by (simp add: int_truediv_def rnd64_eval py_min_def spec_rounded_def round2_def)

lemma run_2024_01_20:
  "\<exists>st self'. calculate_current_state (host_on 738905) init_manager text_2024_01_01 28 = Inr (st, self') \<and>
     st_current_day st = 20 \<and> st_stage st = ''luteal'' \<and>
     st_physical_impact st = Finite (1 / 2) \<and>
     st_psychological_impact st = Finite (7385903388887613 / 18014398509481984)"
proof -
  obtain st where st:
    "calculate_current_state (host_on 738905) init_manager text_2024_01_01 28 =
       Inr (st, init_manager\<lparr>current_state := Some st,
                             last_calculated_date := Some (now_date_1 (host_on 738905))\<rparr>)"
    "st_current_day st = 20" "st_stage st = ''luteal''"
    "calculate_impacts (st_stage st) (st_current_day st) 28 =
       Inr (st_physical_impact st, st_psychological_impact st)"
    using calculate_fresh [OF init_not_cached, of 28 "host_on 738905" text_2024_01_01]
    by (auto simp: host_on_simps)
  then show ?thesis using luteal_20_28 by auto
qed

lemma config_of_simps:
  "get_config (plugin_enabled (config_of en s cl)) False = en"
  "get_config (cycle_last_period_date (config_of en s cl)) [] = s"
  "get_config (cycle_cycle_length (config_of en s cl)) 28 = cl"
  by (simp_all add: config_of_def get_config_def)

lemma calculate_zero_cycle:
  "\<not> cached_today h self \<Longrightarrow> calculate_current_state h self s 0 = Inl ZeroDivisionError"
  by (simp add: calculate_current_state_def cached_today_def py_mod_def Let_def)

lemma text_2024_01_01_nonempty: "text_2024_01_01 \<noteq> []"
  by (simp add: text_2024_01_01_def)

section \<open>The claims\<close>

subsection \<open>C1: the day index\<close>

text \<open>
  Claim C1. When \<open>calculate_current_state\<close> computes a state (the manager holds none that
  was calculated today), the reference date text parses to the date \<open>ref\<close> and the cycle
  length is positive, the call returns a state whose day index is
  \<open>(today - ref) mod cycle_length + 1\<close>, and this day index lies between 1 and the cycle
  length. The reference date is any date, also one after today: the remainder of
  Python's \<open>%\<close> has the sign of the divisor.
\<close>

theorem C1_day_index_formula:
  assumes "strptime_date h s = Some ref" and "0 < cl" and "\<not> cached_today h self"
  shows "\<exists>st self'. calculate_current_state h self s cl = Inr (st, self') \<and>
           st_current_day st = (now_date_1 h - ref) mod cl + 1 \<and>
           1 \<le> st_current_day st \<and> st_current_day st \<le> cl"
proof -
  obtain st where
    "calculate_current_state h self s cl =
       Inr (st, self\<lparr>current_state := Some st, last_calculated_date := Some (now_date_1 h)\<rparr>)"
    "st_current_day st =
       (now_date_1 h - (case strptime_date h s of Some d \<Rightarrow> d | None \<Rightarrow> now_date_2 h - 14)) mod cl + 1"
    "1 \<le> st_current_day st" "st_current_day st \<le> cl"
    using calculate_fresh [OF assms(3,2), of s] by blast
  then show ?thesis using assms(1) by auto
qed

theorem C1_day_index_formula_witness:
  "(\<exists>st self'. calculate_current_state (host_on 738905) init_manager text_2024_01_01 28 = Inr (st, self') \<and>
       st_current_day st = 20 \<and> 1 \<le> st_current_day st \<and> st_current_day st \<le> 28) \<and>
   (\<exists>st self'. calculate_current_state (host_on 738905) init_manager text_2024_01_25 28 = Inr (st, self') \<and>
       st_current_day st = 24 \<and> 1 \<le> st_current_day st \<and> st_current_day st \<le> 28)"
  using C1_day_index_formula [of "host_on 738905" text_2024_01_01 738886 28 init_manager]
    C1_day_index_formula [of "host_on 738905" text_2024_01_25 738910 28 init_manager]
  by (simp add: host_on_simps init_not_cached)

subsection \<open>C2: the stage of a day index\<close>

text \<open>
  Claim C2. In every state that \<open>calculate_current_state\<close> computes, the stage follows
  the day index by fixed fenceposts: days 1 to 5 are menstrual, days 6 to 13 follicular,
  day 14 ovulation and every later day luteal. The instance that follows runs the
  calculation on the days 5, 6, 13, 14 and 15 of a 28-day cycle.
\<close>

theorem C2_stage_fenceposts:
  assumes "\<not> cached_today h self" and "calculate_current_state h self s cl = Inr (st, self')"
  shows "(1 \<le> st_current_day st \<and> st_current_day st \<le> 5 \<longrightarrow> st_stage st = ''menstrual'') \<and>
         (6 \<le> st_current_day st \<and> st_current_day st \<le> 13 \<longrightarrow> st_stage st = ''follicular'') \<and>
         (st_current_day st = 14 \<longrightarrow> st_stage st = ''ovulation'') \<and>
         (14 < st_current_day st \<longrightarrow> st_stage st = ''luteal'')"
  using calculate_stage [OF assms] by simp

theorem C2_stage_fenceposts_witness:
  "(\<exists>st self'. calculate_current_state (host_on (738886 + 4)) init_manager text_2024_01_01 28 = Inr (st, self')
      \<and> st_current_day st = 5 \<and> st_stage st = ''menstrual'') \<and>
   (\<exists>st self'. calculate_current_state (host_on (738886 + 5)) init_manager text_2024_01_01 28 = Inr (st, self')
      \<and> st_current_day st = 6 \<and> st_stage st = ''follicular'') \<and>
   (\<exists>st self'. calculate_current_state (host_on (738886 + 12)) init_manager text_2024_01_01 28 = Inr (st, self')
      \<and> st_current_day st = 13 \<and> st_stage st = ''follicular'') \<and>
   (\<exists>st self'. calculate_current_state (host_on (738886 + 13)) init_manager text_2024_01_01 28 = Inr (st, self')
      \<and> st_current_day st = 14 \<and> st_stage st = ''ovulation'') \<and>
   (\<exists>st self'. calculate_current_state (host_on (738886 + 14)) init_manager text_2024_01_01 28 = Inr (st, self')
      \<and> st_current_day st = 15 \<and> st_stage st = ''luteal'')"
proof -
  have step: "\<exists>st self'. calculate_current_state (host_on (738886 + k)) init_manager text_2024_01_01 28 = Inr (st, self')
      \<and> st_current_day st = k mod 28 + 1
      \<and> st_stage st =
          (if k mod 28 + 1 \<le> 5 then ''menstrual'' else if k mod 28 + 1 \<le> 13 then ''follicular''
           else if k mod 28 + 1 = 14 then ''ovulation'' else ''luteal'')" for k
  proof -
    obtain st self' where r:
      "calculate_current_state (host_on (738886 + k)) init_manager text_2024_01_01 28 = Inr (st, self')"
      "st_current_day st = k mod 28 + 1"
      using run_on_day [of k] by blast
    have "1 \<le> st_current_day st" using r(2) by simp
    then have "st_stage st =
          (if st_current_day st \<le> 5 then ''menstrual'' else if st_current_day st \<le> 13 then ''follicular''
           else if st_current_day st = 14 then ''ovulation'' else ''luteal'')"
      using C2_stage_fenceposts [OF init_not_cached r(1)] by auto
    then show ?thesis using r by auto
  qed
  show ?thesis using step [of 4] step [of 5] step [of 12] step [of 13] step [of 14] by simp
qed

subsection \<open>C3: the impact pair\<close>

text \<open>
  Claim C3. For each of the four stages, every day index and every cycle length,
  \<open>_calculate_impacts\<close> returns what the specification's definition of the impacts gives
  (\<open>spec_impacts\<close>), with the same exception where the division has no value; and on day 1
  of the menstrual stage it returns exactly the pair \<open>(0.80, 0.70)\<close>. The instance that
  follows is day 20 of a 28-day cycle, where both give \<open>(0.5, 0.41)\<close>.
\<close>

theorem C3_impacts_equal_reference:
  "calculate_impacts (stage_key sid) d cl = spec_impacts sid d cl \<and>
   calculate_impacts ''menstrual'' 1 cl = Inr (float_lit 80 2, float_lit 70 2)"
proof
  show "calculate_impacts (stage_key sid) d cl = spec_impacts sid d cl"
  proof (cases sid)
    case Menstrual
    then show ?thesis by (simp add: calculate_impacts_menstrual Let_def split: sum.splits)
  next
    case Follicular
    then show ?thesis by (simp add: calculate_impacts_follicular)
  next
    case Ovulation
    then show ?thesis by (simp add: calculate_impacts_ovulation)
  next
    case Luteal
    then show ?thesis
      by (simp add: calculate_impacts_luteal spec_capped_is_min Let_def split: sum.splits)
  qed
next
  show "calculate_impacts ''menstrual'' 1 cl = Inr (float_lit 80 2, float_lit 70 2)"
    by (rule menstrual_day_one)
qed

theorem C3_impacts_equal_reference_witness:
  "spec_impacts Luteal 20 28 =
     Inr (Finite (1 / 2), Finite (7385903388887613 / 18014398509481984)) \<and>
   calculate_impacts ''luteal'' 20 28 = spec_impacts Luteal 20 28 \<and>
   calculate_impacts ''menstrual'' 1 28 =
     Inr (Finite (3602879701896397 / 4503599627370496),
          Finite (3152519739159347 / 4503599627370496))"
  using C3_impacts_equal_reference [of Luteal 20 28] luteal_20_28
  unfolding float_lit_values by simp

subsection \<open>C4: impacts in the unit interval, with two decimals\<close>

text \<open>
  Claim C4. For a cycle length from 20 to 40, every state the calculator computes has a
  day index from 1 to the cycle length and two impacts that are finite floats in
  \<open>[0, 1]\<close>, each equal to its own rounding to two decimal places; and every day index
  from 1 to the cycle length is the day index of such a state.
\<close>

theorem C4_impacts_in_unit_interval:
  assumes "20 \<le> cl" and "cl \<le> 40"
  shows "(\<forall>h self s. \<not> cached_today h self \<longrightarrow>
           (\<exists>st self' p q. calculate_current_state h self s cl = Inr (st, self') \<and>
              1 \<le> st_current_day st \<and> st_current_day st \<le> cl \<and>
              st_physical_impact st = Finite p \<and> 0 \<le> p \<and> p \<le> 1 \<and>
              round2 (Finite p) = Inr (Finite p) \<and>
              st_psychological_impact st = Finite q \<and> 0 \<le> q \<and> q \<le> 1 \<and>
              round2 (Finite q) = Inr (Finite q))) \<and>
         (\<forall>d. 1 \<le> d \<and> d \<le> cl \<longrightarrow>
           (\<exists>h s st self'. calculate_current_state h init_manager s cl = Inr (st, self') \<and>
              st_current_day st = d))"
proof (intro conjI allI impI)
  fix h :: host and self s
  assume miss: "\<not> cached_today h self"
  have "0 < cl" using assms(1) by simp
  then obtain st where st:
    "calculate_current_state h self s cl =
       Inr (st, self\<lparr>current_state := Some st, last_calculated_date := Some (now_date_1 h)\<rparr>)"
    "1 \<le> st_current_day st" "st_current_day st \<le> cl"
    "unit_2dp (st_physical_impact st)" "unit_2dp (st_psychological_impact st)"
    using calculate_fresh [OF miss, of cl s] by blast
  obtain p where p: "st_physical_impact st = Finite p" "0 \<le> p" "p \<le> 1"
    "round2 (Finite p) = Inr (Finite p)"
    using st(4) by (auto simp: unit_2dp_def split: float64.splits)
  obtain q where q: "st_psychological_impact st = Finite q" "0 \<le> q" "q \<le> 1"
    "round2 (Finite q) = Inr (Finite q)"
    using st(5) by (auto simp: unit_2dp_def split: float64.splits)
  show "\<exists>st self' p q. calculate_current_state h self s cl = Inr (st, self') \<and>
              1 \<le> st_current_day st \<and> st_current_day st \<le> cl \<and>
              st_physical_impact st = Finite p \<and> 0 \<le> p \<and> p \<le> 1 \<and>
              round2 (Finite p) = Inr (Finite p) \<and>
              st_psychological_impact st = Finite q \<and> 0 \<le> q \<and> q \<le> 1 \<and>
              round2 (Finite q) = Inr (Finite q)"
    using st(1,2,3) p q by blast
next
  fix d :: int
  assume d: "1 \<le> d \<and> d \<le> cl"
  have "0 < cl" using assms(1) by simp
  then obtain st self' where
    "calculate_current_state (host_on (738886 + (d - 1))) init_manager text_2024_01_01 cl = Inr (st, self')"
    "st_current_day st = (d - 1) mod cl + 1"
    using calculate_fresh [OF init_not_cached, of cl "host_on (738886 + (d - 1))" text_2024_01_01]
    by (auto simp: host_on_simps)
  moreover have "(d - 1) mod cl = d - 1" using d by simp
  ultimately show "\<exists>h s st self'. calculate_current_state h init_manager s cl = Inr (st, self') \<and>
              st_current_day st = d"
    by auto
qed

theorem C4_impacts_in_unit_interval_witness:
  "(\<exists>st self'.
      calculate_current_state (host_on 738905) init_manager text_2024_01_01 28 = Inr (st, self') \<and>
      st_current_day st = 20 \<and>
      st_physical_impact st = Finite (1 / 2) \<and>
      round2 (Finite (1 / 2)) = Inr (Finite (1 / 2)) \<and>
      st_psychological_impact st = Finite (7385903388887613 / 18014398509481984) \<and>
      round2 (Finite (7385903388887613 / 18014398509481984)) =
        Inr (Finite (7385903388887613 / 18014398509481984))) \<and>
   (\<exists>h s st self'. calculate_current_state h init_manager s 28 = Inr (st, self') \<and>
      st_current_day st = 28)"
proof -
  have a: "(20::int) \<le> 28" and b: "(28::int) \<le> 40" by simp_all
  note t = C4_impacts_in_unit_interval [OF a b]
  note t1 = t [THEN conjunct1, rule_format, of "host_on 738905" init_manager text_2024_01_01]
  note t2 = t [THEN conjunct2, rule_format, of 28]
  obtain st self' where r:
    "calculate_current_state (host_on 738905) init_manager text_2024_01_01 28 = Inr (st, self')"
    "st_current_day st = 20"
    "st_physical_impact st = Finite (1 / 2)"
    "st_psychological_impact st = Finite (7385903388887613 / 18014398509481984)"
    using run_2024_01_20 by blast
  obtain st2 self2 p q where x:
    "calculate_current_state (host_on 738905) init_manager text_2024_01_01 28 = Inr (st2, self2)"
    "st_physical_impact st2 = Finite p" "round2 (Finite p) = Inr (Finite p)"
    "st_psychological_impact st2 = Finite q" "round2 (Finite q) = Inr (Finite q)"
    using t1 [OF init_not_cached] by blast
  have same: "st2 = st" using x(1) r(1) by simp
  have "round2 (st_physical_impact st) = Inr (st_physical_impact st)"
    "round2 (st_psychological_impact st) = Inr (st_psychological_impact st)"
    using x(3,5) unfolding x(2) [symmetric] x(4) [symmetric] same by blast+
  then have "round2 (Finite (1 / 2)) = Inr (Finite (1 / 2))"
    "round2 (Finite (7385903388887613 / 18014398509481984)) =
          Inr (Finite (7385903388887613 / 18014398509481984))"
    unfolding r(3,4) by blast+
  moreover have "\<exists>h s st self'. calculate_current_state h init_manager s 28 = Inr (st, self') \<and>
      st_current_day st = 28"
    using t2 by simp
  ultimately show ?thesis using r by blast
qed

subsection \<open>C5: a reference date that does not parse\<close>

text \<open>
  Claim C5. When the reference date text does not parse and the cycle length is
  positive, \<open>calculate_current_state\<close> raises nothing. When it computes, it does what it
  would do had the parser returned the date 14 days before the clock's reading, and it
  returns a state with every field set: the day index from that fallback date, the
  cycle length, one of the four stages, two finite impacts, the stage's name (not the
  name for an unknown stage) and its description (not empty).
\<close>

theorem C5_malformed_date_fallback:
  assumes "strptime_date h s = None" and "0 < cl"
  shows "(\<exists>st self'. calculate_current_state h self s cl = Inr (st, self')) \<and>
         (\<not> cached_today h self \<longrightarrow>
            calculate_current_state h self s cl =
              calculate_current_state (h\<lparr>strptime_date := \<lambda>t. Some (now_date_2 h - 14)\<rparr>) self s cl \<and>
            (\<exists>st self' p q.
               calculate_current_state h self s cl = Inr (st, self') \<and>
               st_current_day st = (now_date_1 h - (now_date_2 h - 14)) mod cl + 1 \<and>
               st_cycle_length st = cl \<and>
               st_stage st \<in> {''menstrual'', ''follicular'', ''ovulation'', ''luteal''} \<and>
               st_physical_impact st = Finite p \<and>
               st_psychological_impact st = Finite q \<and>
               st_stage_name_cn st = get_stage_name_cn (st_stage st) \<and>
               st_stage_name_cn st \<noteq> [] \<and>
               st_stage_name_cn st \<noteq> [0x672A, 0x77E5, 0x9636, 0x6BB5] \<and>
               st_description st = get_stage_description (st_stage st) \<and>
               st_description st \<noteq> []))"
proof (intro conjI impI)
  show "\<exists>st self'. calculate_current_state h self s cl = Inr (st, self')"
    using assms(2) by (rule calculate_never_raises)
next
  assume miss: "\<not> cached_today h self"
  show "calculate_current_state h self s cl =
          calculate_current_state (h\<lparr>strptime_date := \<lambda>t. Some (now_date_2 h - 14)\<rparr>) self s cl"
    using miss assms(1) by (intro calculate_uses_parser_result) simp_all
next
  assume miss: "\<not> cached_today h self"
  obtain st where st:
    "calculate_current_state h self s cl =
       Inr (st, self\<lparr>current_state := Some st, last_calculated_date := Some (now_date_1 h)\<rparr>)"
    "st_current_day st =
       (now_date_1 h - (case strptime_date h s of Some d \<Rightarrow> d | None \<Rightarrow> now_date_2 h - 14)) mod cl + 1"
    "st_cycle_length st = cl"
    "st_stage st =
         (if st_current_day st \<le> 5 then ''menstrual''
          else if st_current_day st \<le> 13 then ''follicular''
          else if st_current_day st = 14 then ''ovulation''
          else ''luteal'')"
    "st_stage_name_cn st = get_stage_name_cn (st_stage st)"
    "st_description st = get_stage_description (st_stage st)"
    "unit_2dp (st_physical_impact st)" "unit_2dp (st_psychological_impact st)"
    using calculate_fresh [OF miss assms(2), of s] by blast
  obtain p where p: "st_physical_impact st = Finite p"
    using st(7) by (auto simp: unit_2dp_def split: float64.splits)
  obtain q where q: "st_psychological_impact st = Finite q"
    using st(8) by (auto simp: unit_2dp_def split: float64.splits)
  have stage: "st_stage st \<in> {''menstrual'', ''follicular'', ''ovulation'', ''luteal''}"
    using st(4) by simp
  have name: "st_stage_name_cn st \<noteq> []" "st_stage_name_cn st \<noteq> [0x672A, 0x77E5, 0x9636, 0x6BB5]"
    using stage st(5) stage_name_cases by auto
  have desc: "st_description st \<noteq> []"
    using stage st(6) stage_description_nonempty by auto
  have day: "st_current_day st = (now_date_1 h - (now_date_2 h - 14)) mod cl + 1"
    using st(2) assms(1) by simp
  show "\<exists>st self' p q.
               calculate_current_state h self s cl = Inr (st, self') \<and>
               st_current_day st = (now_date_1 h - (now_date_2 h - 14)) mod cl + 1 \<and>
               st_cycle_length st = cl \<and>
               st_stage st \<in> {''menstrual'', ''follicular'', ''ovulation'', ''luteal''} \<and>
               st_physical_impact st = Finite p \<and>
               st_psychological_impact st = Finite q \<and>
               st_stage_name_cn st = get_stage_name_cn (st_stage st) \<and>
               st_stage_name_cn st \<noteq> [] \<and>
               st_stage_name_cn st \<noteq> [0x672A, 0x77E5, 0x9636, 0x6BB5] \<and>
               st_description st = get_stage_description (st_stage st) \<and>
               st_description st \<noteq> []"
    using st(1,3,5,6) day stage p q name desc by blast
qed

theorem C5_malformed_date_fallback_witness:
  "(\<exists>st self'. calculate_current_state (host_on 738905) init_manager text_not_a_date 28 = Inr (st, self')) \<and>
   calculate_current_state (host_on 738905) init_manager text_not_a_date 28 =
     calculate_current_state (host_on 738905\<lparr>strptime_date := \<lambda>t. Some (738905 - 14)\<rparr>)
       init_manager text_not_a_date 28 \<and>
   (\<exists>st self' p q.
     calculate_current_state (host_on 738905) init_manager text_not_a_date 28 = Inr (st, self') \<and>
     st_current_day st = (738905 - (738905 - 14)) mod 28 + 1 \<and>
     st_cycle_length st = 28 \<and>
     st_stage st \<in> {''menstrual'', ''follicular'', ''ovulation'', ''luteal''} \<and>
     st_physical_impact st = Finite p \<and>
     st_psychological_impact st = Finite q \<and>
     st_stage_name_cn st = get_stage_name_cn (st_stage st) \<and>
     st_stage_name_cn st \<noteq> [] \<and>
     st_stage_name_cn st \<noteq> [0x672A, 0x77E5, 0x9636, 0x6BB5] \<and>
     st_description st = get_stage_description (st_stage st) \<and>
     st_description st \<noteq> [])"
proof -
  have a: "strptime_date (host_on 738905) text_not_a_date = None" by (simp add: host_on_simps)
  have b: "(0::int) < 28" by simp
  note t = C5_malformed_date_fallback [OF a b, of init_manager, unfolded host_on_simps]
  show ?thesis using t init_not_cached [of "host_on 738905"] by blast
qed

subsection \<open>C6: a second call on the same date\<close>

text \<open>
  Claim C6. When a call of \<open>calculate_current_state\<close> has returned a state, a second call
  with the same arguments on the same calendar date returns that state and leaves the
  manager as the first call left it, holding that state; nothing else of the host (the
  parser, the second reading of the clock) has a part in the result.
\<close>

theorem C6_same_day_same_inputs_cached:
  assumes "calculate_current_state h1 self s cl = Inr (st, self1)"
    and "now_date_1 h2 = now_date_1 h1"
  shows "calculate_current_state h2 self1 s cl = Inr (st, self1) \<and>
         current_state self1 = Some st"
  using calculate_stores [OF assms(1)] assms(2) by (simp add: calculate_cached)

theorem C6_same_day_same_inputs_cached_witness:
  "\<exists>st self1.
     calculate_current_state (host_on 738905) init_manager text_2024_01_01 28 = Inr (st, self1) \<and>
     calculate_current_state (host_on 738905) self1 text_2024_01_01 28 = Inr (st, self1) \<and>
     current_state self1 = Some st"
proof -
  obtain st self1 where r:
    "calculate_current_state (host_on 738905) init_manager text_2024_01_01 28 = Inr (st, self1)"
    using calculate_never_raises [of 28 "host_on 738905" init_manager text_2024_01_01] by auto
  show ?thesis using r C6_same_day_same_inputs_cached [OF r, of "host_on 738905"] by blast
qed

subsection \<open>C7: the prompt is empty when the feature is off or fails\<close>

text \<open>
  Claim C7. \<open>PeriodStatePrompt.execute\<close> returns the empty string, and leaves its state
  manager as it was, when \<open>plugin.enabled\<close> is false or \<open>cycle.last_period_date\<close> is empty,
  whatever the rest of the configuration, and also when the state computation raises
  (when the body of its \<open>try\<close> statement raises at all); and it always returns a string,
  never an exception.
\<close>

theorem C7_prompt_empty_string_and_containment:
  "(\<not> get_config (plugin_enabled cfg) False \<or> get_config (cycle_last_period_date cfg) [] = []
      \<longrightarrow> PeriodStatePrompt_execute cfg h m = Inr ([], m)) \<and>
   (\<forall>e. calculate_current_state h m (get_config (cycle_last_period_date cfg) [])
           (get_config (cycle_cycle_length cfg) 28) = Inl e
      \<longrightarrow> PeriodStatePrompt_execute cfg h m = Inr ([], m)) \<and>
   (\<forall>e. PeriodStatePrompt_try cfg h m = Inl e
      \<longrightarrow> PeriodStatePrompt_execute cfg h m = Inr ([], m)) \<and>
   (\<exists>out m'. PeriodStatePrompt_execute cfg h m = Inr (out, m'))"
proof (intro conjI allI impI)
  assume "\<not> get_config (plugin_enabled cfg) False \<or> get_config (cycle_last_period_date cfg) [] = []"
  then show "PeriodStatePrompt_execute cfg h m = Inr ([], m)"
    by (auto simp: PeriodStatePrompt_execute_def PeriodStatePrompt_try_def Let_def)
next
  fix e
  assume "calculate_current_state h m (get_config (cycle_last_period_date cfg) [])
           (get_config (cycle_cycle_length cfg) 28) = Inl e"
  then show "PeriodStatePrompt_execute cfg h m = Inr ([], m)"
    by (simp add: PeriodStatePrompt_execute_def PeriodStatePrompt_try_def Let_def)
next
  fix e
  assume "PeriodStatePrompt_try cfg h m = Inl e"
  then show "PeriodStatePrompt_execute cfg h m = Inr ([], m)"
    by (simp add: PeriodStatePrompt_execute_def)
next
  show "\<exists>out m'. PeriodStatePrompt_execute cfg h m = Inr (out, m')"
    by (cases "PeriodStatePrompt_try cfg h m") (auto simp: PeriodStatePrompt_execute_def)
qed

theorem C7_prompt_empty_string_and_containment_witness:
  "PeriodStatePrompt_execute (config_of False text_2024_01_01 28) (host_on 738905) init_manager =
     Inr ([], init_manager) \<and>
   PeriodStatePrompt_execute (config_of True [] 28) (host_on 738905) init_manager =
     Inr ([], init_manager) \<and>
   calculate_current_state (host_on 738905) init_manager text_2024_01_01 0 = Inl ZeroDivisionError \<and>
   PeriodStatePrompt_execute (config_of True text_2024_01_01 0) (host_on 738905) init_manager =
     Inr ([], init_manager)"
proof -
  note a = C7_prompt_empty_string_and_containment
    [of "config_of False text_2024_01_01 28" "host_on 738905" init_manager,
     unfolded config_of_simps, THEN conjunct1]
  note b = C7_prompt_empty_string_and_containment
    [of "config_of True [] 28" "host_on 738905" init_manager,
     unfolded config_of_simps, THEN conjunct1]
  note c = C7_prompt_empty_string_and_containment
    [of "config_of True text_2024_01_01 0" "host_on 738905" init_manager,
     unfolded config_of_simps, THEN conjunct2, THEN conjunct1, rule_format]
  have z: "calculate_current_state (host_on 738905) init_manager text_2024_01_01 0 =
             Inl ZeroDivisionError"
    using init_not_cached by (rule calculate_zero_cycle)
  show ?thesis using a b c [OF z] z by simp
qed

subsection \<open>C8: the status command checks its preconditions in order\<close>

text \<open>
  Claim C8. \<open>PeriodStatusCommand.execute\<close>, with the plugin not enabled, sends the
  not-enabled message and returns success; enabled with an empty reference date, it
  sends the not-configured message and returns success; when the state computation
  raises it sends the query-failed message and returns failure; otherwise it sends the
  report and returns success. The three messages differ from each other, the
  returned flag is false exactly when the computation raised, and the command always
  returns an outcome, never an exception.
\<close>

theorem C8_status_command_preconditions:
  "(\<not> get_config (plugin_enabled cfg) False \<longrightarrow>
      PeriodStatusCommand_execute cfg h m =
        Inr \<lparr>sent = [msg_not_enabled],
             returned = (True, [0x63D2, 0x4EF6, 0x672A, 0x542F, 0x7528], True),
             manager = m\<rparr>) \<and>
   (get_config (plugin_enabled cfg) False \<and> get_config (cycle_last_period_date cfg) [] = [] \<longrightarrow>
      PeriodStatusCommand_execute cfg h m =
        Inr \<lparr>sent = [msg_not_configured],
             returned = (True, [0x672A, 0x914D, 0x7F6E, 0x6708, 0x7ECF, 0x65E5, 0x671F], True),
             manager = m\<rparr>) \<and>
   (\<forall>e. get_config (plugin_enabled cfg) False \<and> get_config (cycle_last_period_date cfg) [] \<noteq> [] \<and>
        calculate_current_state h m (get_config (cycle_last_period_date cfg) [])
          (get_config (cycle_cycle_length cfg) 28) = Inl e \<longrightarrow>
      PeriodStatusCommand_execute cfg h m =
        Inr \<lparr>sent = [msg_query_failed],
             returned = (False, [0x67E5, 0x8BE2, 0x5931, 0x8D25, 0x3A, 0x20] @ exc_str h e, True),
             manager = m\<rparr>) \<and>
   (\<forall>st m'. get_config (plugin_enabled cfg) False \<and>
        get_config (cycle_last_period_date cfg) [] \<noteq> [] \<and>
        calculate_current_state h m (get_config (cycle_last_period_date cfg) [])
          (get_config (cycle_cycle_length cfg) 28) = Inr (st, m') \<longrightarrow>
      PeriodStatusCommand_execute cfg h m =
        Inr \<lparr>sent = [generate_status_report h st],
             returned =
               (True, [0x53D1, 0x9001, 0x5468, 0x671F, 0x72B6, 0x6001, 0x62A5, 0x544A], True),
             manager = m'\<rparr>) \<and>
   msg_not_enabled \<noteq> msg_not_configured \<and>
   msg_query_failed \<noteq> msg_not_enabled \<and>
   msg_query_failed \<noteq> msg_not_configured \<and>
   (\<exists>out. PeriodStatusCommand_execute cfg h m = Inr out \<and>
      (\<not> fst (returned out) \<longleftrightarrow>
         get_config (plugin_enabled cfg) False \<and>
         get_config (cycle_last_period_date cfg) [] \<noteq> [] \<and>
         (\<exists>e. calculate_current_state h m (get_config (cycle_last_period_date cfg) [])
                (get_config (cycle_cycle_length cfg) 28) = Inl e)))"
proof (intro conjI allI impI)
  show "msg_not_enabled \<noteq> msg_not_configured" "msg_query_failed \<noteq> msg_not_enabled"
    "msg_query_failed \<noteq> msg_not_configured"
    by (simp_all add: msg_not_enabled_def msg_not_configured_def msg_query_failed_def)
next
  assume "\<not> get_config (plugin_enabled cfg) False"
  then show "PeriodStatusCommand_execute cfg h m =
        Inr \<lparr>sent = [msg_not_enabled],
             returned = (True, [0x63D2, 0x4EF6, 0x672A, 0x542F, 0x7528], True),
             manager = m\<rparr>"
    by (simp add: PeriodStatusCommand_execute_def PeriodStatusCommand_try_def Let_def)
next
  assume "get_config (plugin_enabled cfg) False \<and> get_config (cycle_last_period_date cfg) [] = []"
  then show "PeriodStatusCommand_execute cfg h m =
        Inr \<lparr>sent = [msg_not_configured],
             returned = (True, [0x672A, 0x914D, 0x7F6E, 0x6708, 0x7ECF, 0x65E5, 0x671F], True),
             manager = m\<rparr>"
    by (simp add: PeriodStatusCommand_execute_def PeriodStatusCommand_try_def Let_def)
next
  fix e
  assume "get_config (plugin_enabled cfg) False \<and> get_config (cycle_last_period_date cfg) [] \<noteq> [] \<and>
        calculate_current_state h m (get_config (cycle_last_period_date cfg) [])
          (get_config (cycle_cycle_length cfg) 28) = Inl e"
  then show "PeriodStatusCommand_execute cfg h m =
        Inr \<lparr>sent = [msg_query_failed],
             returned = (False, [0x67E5, 0x8BE2, 0x5931, 0x8D25, 0x3A, 0x20] @ exc_str h e, True),
             manager = m\<rparr>"
    by (simp add: PeriodStatusCommand_execute_def PeriodStatusCommand_try_def Let_def)
next
  fix st m'
  assume "get_config (plugin_enabled cfg) False \<and>
        get_config (cycle_last_period_date cfg) [] \<noteq> [] \<and>
        calculate_current_state h m (get_config (cycle_last_period_date cfg) [])
          (get_config (cycle_cycle_length cfg) 28) = Inr (st, m')"
  then show "PeriodStatusCommand_execute cfg h m =
        Inr \<lparr>sent = [generate_status_report h st],
             returned =
               (True, [0x53D1, 0x9001, 0x5468, 0x671F, 0x72B6, 0x6001, 0x62A5, 0x544A], True),
             manager = m'\<rparr>"
    by (simp add: PeriodStatusCommand_execute_def PeriodStatusCommand_try_def Let_def)
next
  show "\<exists>out. PeriodStatusCommand_execute cfg h m = Inr out \<and>
      (\<not> fst (returned out) \<longleftrightarrow>
         get_config (plugin_enabled cfg) False \<and>
         get_config (cycle_last_period_date cfg) [] \<noteq> [] \<and>
         (\<exists>e. calculate_current_state h m (get_config (cycle_last_period_date cfg) [])
                (get_config (cycle_cycle_length cfg) 28) = Inl e))"
    by (cases "calculate_current_state h m (get_config (cycle_last_period_date cfg) [])
                (get_config (cycle_cycle_length cfg) 28)")
       (auto simp: PeriodStatusCommand_execute_def PeriodStatusCommand_try_def Let_def)
qed

theorem C8_status_command_preconditions_witness:
  "PeriodStatusCommand_execute (config_of False text_2024_01_01 28) (host_on 738905) init_manager =
     Inr \<lparr>sent = [msg_not_enabled],
          returned = (True, [0x63D2, 0x4EF6, 0x672A, 0x542F, 0x7528], True),
          manager = init_manager\<rparr> \<and>
   PeriodStatusCommand_execute (config_of True [] 28) (host_on 738905) init_manager =
     Inr \<lparr>sent = [msg_not_configured],
          returned = (True, [0x672A, 0x914D, 0x7F6E, 0x6708, 0x7ECF, 0x65E5, 0x671F], True),
          manager = init_manager\<rparr> \<and>
   PeriodStatusCommand_execute (config_of True text_2024_01_01 0) (host_on 738905) init_manager =
     Inr \<lparr>sent = [msg_query_failed],
          returned =
            (False,
             [0x67E5, 0x8BE2, 0x5931, 0x8D25, 0x3A, 0x20] @ exc_str (host_on 738905) ZeroDivisionError,
             True),
          manager = init_manager\<rparr>"
proof -
  note a = C8_status_command_preconditions
    [of "config_of False text_2024_01_01 28" "host_on 738905" init_manager,
     unfolded config_of_simps, THEN conjunct1]
  note b = C8_status_command_preconditions
    [of "config_of True [] 28" "host_on 738905" init_manager,
     unfolded config_of_simps, THEN conjunct2, THEN conjunct1]
  note c = C8_status_command_preconditions
    [of "config_of True text_2024_01_01 0" "host_on 738905" init_manager,
     unfolded config_of_simps, THEN conjunct2, THEN conjunct2, THEN conjunct1, rule_format]
  have z: "calculate_current_state (host_on 738905) init_manager text_2024_01_01 0 =
             Inl ZeroDivisionError"
    using init_not_cached by (rule calculate_zero_cycle)
  show ?thesis using a b c [of ZeroDivisionError] z text_2024_01_01_nonempty by simp
qed

subsection \<open>C9: the luteal divisor is positive\<close>

text \<open>
  Claim C9. For a positive cycle length \<open>calculate_current_state\<close> never raises
  \<open>ZeroDivisionError\<close>. In a state it computes the day index is at most the cycle length,
  and when the stage is luteal the day index is at least 15, so the cycle length is at
  least 15, the divisor \<open>cycle_length - 14\<close> is at least 1 and the division of the luteal
  branch has a value; the impacts of the state are what \<open>_calculate_impacts\<close> returns for
  its stage, its day index and the cycle length. Called directly with the cycle length
  14, the luteal branch does divide by zero.
\<close>

theorem C9_luteal_divisor_positive:
  assumes "0 < cl"
  shows "calculate_current_state h self s cl \<noteq> Inl ZeroDivisionError \<and>
         (\<not> cached_today h self \<longrightarrow>
            (\<exists>st self'. calculate_current_state h self s cl = Inr (st, self') \<and>
               calculate_impacts (st_stage st) (st_current_day st) cl =
                 Inr (st_physical_impact st, st_psychological_impact st) \<and>
               st_current_day st \<le> cl \<and>
               (st_stage st = ''luteal'' \<longrightarrow>
                  15 \<le> st_current_day st \<and> 15 \<le> cl \<and> 1 \<le> cl - 14 \<and>
                  (\<exists>r. int_truediv (st_current_day st - 14) (cl - 14) = Inr r)))) \<and>
         calculate_impacts ''luteal'' d 14 = Inl ZeroDivisionError"
proof (intro conjI impI)
  show "calculate_current_state h self s cl \<noteq> Inl ZeroDivisionError"
    using calculate_never_raises [OF assms, of h self s] by auto
next
  show "calculate_impacts ''luteal'' d 14 = Inl ZeroDivisionError"
    by (simp add: calculate_impacts_luteal int_truediv_def)
next
  assume miss: "\<not> cached_today h self"
  obtain st where st:
    "calculate_current_state h self s cl =
       Inr (st, self\<lparr>current_state := Some st, last_calculated_date := Some (now_date_1 h)\<rparr>)"
    "1 \<le> st_current_day st" "st_current_day st \<le> cl"
    "st_stage st =
         (if st_current_day st \<le> 5 then ''menstrual''
          else if st_current_day st \<le> 13 then ''follicular''
          else if st_current_day st = 14 then ''ovulation''
          else ''luteal'')"
    "calculate_impacts (st_stage st) (st_current_day st) cl =
       Inr (st_physical_impact st, st_psychological_impact st)"
    using calculate_fresh [OF miss assms, of s] by blast
  have "15 \<le> st_current_day st \<and> 15 \<le> cl \<and> 1 \<le> cl - 14 \<and>
        (\<exists>r. int_truediv (st_current_day st - 14) (cl - 14) = Inr r)"
    if "st_stage st = ''luteal''"
  proof -
    have d: "15 \<le> st_current_day st" using that st(4) by (simp split: if_splits)
    then have "0 \<le> st_current_day st - 14" "st_current_day st - 14 \<le> cl - 14" "0 < cl - 14"
      using st(3) by simp_all
    then have "\<exists>r. int_truediv (st_current_day st - 14) (cl - 14) = Inr r"
      using int_truediv_unit by blast
    then show ?thesis using d st(3) by simp
  qed
  then show "\<exists>st self'. calculate_current_state h self s cl = Inr (st, self') \<and>
               calculate_impacts (st_stage st) (st_current_day st) cl =
                 Inr (st_physical_impact st, st_psychological_impact st) \<and>
               st_current_day st \<le> cl \<and>
               (st_stage st = ''luteal'' \<longrightarrow>
                  15 \<le> st_current_day st \<and> 15 \<le> cl \<and> 1 \<le> cl - 14 \<and>
                  (\<exists>r. int_truediv (st_current_day st - 14) (cl - 14) = Inr r))"
    using st(1,3,5) by blast
qed

theorem C9_luteal_divisor_positive_witness:
  "calculate_current_state (host_on 738905) init_manager text_2024_01_01 28 \<noteq> Inl ZeroDivisionError \<and>
   (\<exists>st self'. calculate_current_state (host_on 738905) init_manager text_2024_01_01 28 = Inr (st, self') \<and>
       st_stage st = ''luteal'' \<and> st_current_day st = 20 \<and>
       calculate_impacts ''luteal'' 20 28 = Inr (st_physical_impact st, st_psychological_impact st) \<and>
       (\<exists>r. int_truediv (20 - 14) (28 - 14) = Inr r)) \<and>
   calculate_impacts ''luteal'' 20 14 = Inl ZeroDivisionError"
proof -
  note t = C9_luteal_divisor_positive [of 28 "host_on 738905" init_manager text_2024_01_01 20]
  obtain st where st:
    "calculate_current_state (host_on 738905) init_manager text_2024_01_01 28 =
       Inr (st, init_manager\<lparr>current_state := Some st,
                             last_calculated_date := Some (now_date_1 (host_on 738905))\<rparr>)"
    "st_current_day st = 20" "st_stage st = ''luteal''"
    using calculate_fresh [OF init_not_cached, of 28 "host_on 738905" text_2024_01_01]
    by (auto simp: host_on_simps)
  show ?thesis using t st init_not_cached [of "host_on 738905"] by auto
qed

subsection \<open>C10: a second call on the same date ignores its arguments\<close>

text \<open>
  Claim C10. When a call of \<open>calculate_current_state\<close> has returned a state, a second call
  on the same calendar date returns that state and leaves the manager unchanged,
  whatever reference date and cycle length it is given. On another date the call
  computes a state from the arguments it is given.
\<close>

theorem C10_same_day_arguments_ignored:
  assumes "calculate_current_state h1 self s cl = Inr (st, self1)"
    and "now_date_1 h2 = now_date_1 h1"
  shows "calculate_current_state h2 self1 s' cl' = Inr (st, self1) \<and>
         (\<forall>h3::host. now_date_1 h3 \<noteq> now_date_1 h1 \<and> 0 < cl' \<longrightarrow>
            (\<exists>st' self3. calculate_current_state h3 self1 s' cl' = Inr (st', self3) \<and>
               st_cycle_length st' = cl' \<and>
               st_current_day st' =
                 (now_date_1 h3 -
                    (case strptime_date h3 s' of Some d \<Rightarrow> d | None \<Rightarrow> now_date_2 h3 - 14))
                 mod cl' + 1))"
proof (intro conjI allI impI)
  show "calculate_current_state h2 self1 s' cl' = Inr (st, self1)"
    using calculate_stores [OF assms(1)] assms(2) by (simp add: calculate_cached)
next
  fix h3 :: host
  assume a: "now_date_1 h3 \<noteq> now_date_1 h1 \<and> 0 < cl'"
  then have "\<not> cached_today h3 self1"
    using calculate_stores [OF assms(1)] by (simp add: cached_today_def)
  then show "\<exists>st' self3. calculate_current_state h3 self1 s' cl' = Inr (st', self3) \<and>
               st_cycle_length st' = cl' \<and>
               st_current_day st' =
                 (now_date_1 h3 -
                    (case strptime_date h3 s' of Some d \<Rightarrow> d | None \<Rightarrow> now_date_2 h3 - 14))
                 mod cl' + 1"
    using calculate_fresh [of h3 self1 cl' s'] a by blast
qed

theorem C10_same_day_arguments_ignored_witness:
  "\<exists>st self1.
     calculate_current_state (host_on 738905) init_manager text_2024_01_01 28 = Inr (st, self1) \<and>
     st_cycle_length st = 28 \<and>
     calculate_current_state (host_on 738905) self1 text_not_a_date 0 = Inr (st, self1) \<and>
     calculate_current_state (host_on 738905) self1 text_2024_01_25 30 = Inr (st, self1) \<and>
     (\<exists>st' self3. calculate_current_state (host_on 738906) self1 text_2024_01_25 30 = Inr (st', self3) \<and>
        st_cycle_length st' = 30 \<and> st_current_day st' = 27)"
proof -
  obtain st where r:
    "calculate_current_state (host_on 738905) init_manager text_2024_01_01 28 =
       Inr (st, init_manager\<lparr>current_state := Some st,
                             last_calculated_date := Some (now_date_1 (host_on 738905))\<rparr>)"
    "st_cycle_length st = 28"
    using calculate_fresh [OF init_not_cached, of 28 "host_on 738905" text_2024_01_01] by auto
  have same: "now_date_1 (host_on 738905) = now_date_1 (host_on 738905)" by simp
  note t1 = C10_same_day_arguments_ignored [OF r(1) same, of text_not_a_date 0]
  note t2 = C10_same_day_arguments_ignored [OF r(1) same, of text_2024_01_25 30]
  have "\<exists>st' self3.
          calculate_current_state (host_on 738906)
            (init_manager\<lparr>current_state := Some st,
                          last_calculated_date := Some (now_date_1 (host_on 738905))\<rparr>)
            text_2024_01_25 30 = Inr (st', self3) \<and>
          st_cycle_length st' = 30 \<and> st_current_day st' = 27"
    using t2 [THEN conjunct2, rule_format, of "host_on 738906"] by (simp add: host_on_simps)
  then show ?thesis using r t1 t2 by blast
qed

end
